theory Spec2Isabelle
  imports Complex_Main
begin

section \<open>Coupled 2D-3D time integrators: a shallow embedding\<close>

text \<open>
  The theory embeds the scheduling logic of \<^verbatim>\<open>cofs/coupledTimeIntegrator.py\<close>, the
  horizontal advection term of \<^verbatim>\<open>cofs/momentum_eq.py\<close> and the forward Euler stepper of
  \<^verbatim>\<open>thetis/timeintegrator.py\<close>.

  Conventions.
  \<^item> Python floats are idealised as exact rationals (\<^typ>\<open>rat\<close>); rounding is not modelled.
  \<^item> Calls into collaborators whose code is elsewhere (single-equation steppers, field
    utilities, the turbulence closure, the limiter) are recorded as events on a trace,
    in call order, and are taken to return normally.
  \<^item> Every raise that is visible in the modelled source is a branch of the model: a
    result is \<open>Inl (e, s)\<close> (exception \<open>e\<close> raised in state \<open>s\<close>) or \<open>Inr s\<close>.
  \<^item> \<^verbatim>\<open>printInfo\<close> calls and \<^verbatim>\<open>timed_region\<close> context managers have no effect on the
    schedule and are left out.
\<close>

subsection \<open>Errors, results and sequencing\<close>

datatype error =
    NameError string
  | AttributeError string
  | IndexError
  | ZeroDivisionError
  | Exception string

type_synonym 's outcome = "(error \<times> 's) + 's"

text \<open>Statement sequencing: the first raise aborts the rest.\<close>

fun steps :: "('s \<Rightarrow> 's outcome) list \<Rightarrow> 's \<Rightarrow> 's outcome" where
  "steps [] s = Inr s"
| "steps (f # fs) s = (case f s of Inl e \<Rightarrow> Inl e | Inr s' \<Rightarrow> steps fs s')"

definition when_do :: "bool \<Rightarrow> ('s \<Rightarrow> 's outcome) \<Rightarrow> 's \<Rightarrow> 's outcome" where
  "when_do b f s = (if b then f s else Inr s)"

definition raise :: "error \<Rightarrow> 's \<Rightarrow> 's outcome" where
  "raise e s = Inl (e, s)"

text \<open>\<^verbatim>\<open>for k in range(n): body(k)\<close>\<close>

fun for_each :: "'a list \<Rightarrow> ('a \<Rightarrow> 's \<Rightarrow> 's outcome) \<Rightarrow> 's \<Rightarrow> 's outcome" where
  "for_each [] body s = Inr s"
| "for_each (k # ks) body s =
     (case body k s of Inl e \<Rightarrow> Inl e | Inr s' \<Rightarrow> for_each ks body s')"

text \<open>Python list indexing with a non-negative index.\<close>

definition getitem :: "'a list \<Rightarrow> nat \<Rightarrow> error + 'a" where
  "getitem xs k = (if k < length xs then Inr (xs ! k) else Inl IndexError)"

subsection \<open>Solver context, options and events\<close>

record options =
  useALEMovingMesh :: bool
  useBottomFriction :: bool
  useParabolicViscosity :: bool
  baroclinic :: bool
  useTurbulence :: bool
  useTurbulenceAdvection :: bool
  useLimiterForTracers :: bool
  solveSalt :: bool
  solveVertDiffusion :: bool
  smagorinskyFactor :: "rat option"
  saltJumpDiffFactor :: "rat option"

text \<open>
  The solver object as far as the integrators read it. The stage counts are attributes
  of stepper classes of the module \<^verbatim>\<open>timeIntegrator\<close>, and are parameters here:
  \<open>imex_nStages\<close> is \<^verbatim>\<open>SSPIMEX.nStages\<close>, \<open>ssprk_nstages\<close> is \<^verbatim>\<open>SSPRK33Stage.nstages\<close>.
\<close>

record solver_ctx =
  solver_options :: options
  solver_dt :: rat
  solver_dt_2d :: rat
  imex_nStages :: nat
  ssprk_nstages :: nat

datatype stepper =
    TimeStepper2d | TimeStepper_mom3d | TimeStepper_salt3d | TimeStepper_vmom3d
  | TimeStepper_tke3d | TimeStepper_psi3d | TimeStepper_tkeAdvEq | TimeStepper_psiAdvEq

datatype field =
    Elev2d | Elev2d_nplushalf | Elev3d | Elev3d_nplushalf | Solution2d | Uv2d | Uv3d | UvDav2d | UvDav3d
  | Uv2d_start | Sol2d_n | Salt3d | Tke3d | Psi3d | VElemSize2d | VElemSize3d

datatype recipe =
    SSPRKSync | SSPIMEX | SSPRKSemiImplicit | SSPRKSingleMode | SSPRK

record flags =
  do2DCoupling :: bool
  doVertDiffusion :: bool
  doALEUpdate :: bool
  doStabParams :: bool
  doTurbulence :: bool

datatype event =
    Copy2dFieldTo3d field field
  | Copy3dFieldTo2d field field
  | Project_elev3d_to_CG
  | Project_uvP1
  | ComputeVertVelocity
  | UpdateCoordinates
  | ComputeElemHeight
  | ComputeBottomFriction
  | ComputeParabolicViscosity
  | ComputeVerticalIntegral
  | Sub_uv3d_uvDav3d
  | Add_uv3d_uvDav3d
  | Assign field field
  | Blend_sol2d rat
  | ComputeMeshVelocity
  | ComputeBaroclinicHead
  | GlsPreprocess
  | GlsPostprocess
  | LimiterApply field
  | ComputeVelMagnitude
  | SmagorinskyViscosity
  | ComputeHorizJumpDiffusivity
  | StepperInitialize stepper
  | StepperAdvance stepper rat rat
  | StepperSolveStage stepper nat rat rat
  | Enter_updateAllDependencies flags

text \<open>
  An integrator object. \<open>steppers\<close> lists the \<^verbatim>\<open>timeStepper_*\<close> attributes that the
  constructor has set; reading one that is absent raises \<^verbatim>\<open>AttributeError\<close>.
  \<open>self_M\<close> and \<open>self_dt_2d\<close> are the attributes \<^verbatim>\<open>self.M\<close> and \<^verbatim>\<open>self.dt_2d\<close>.
\<close>

record integrator =
  recipe_of :: recipe
  solver :: solver_ctx
  initialized :: bool
  steppers :: "stepper list"
  dt_frac :: "rat list"
  start_frac :: "rat list"
  stage_w :: "rat list"
  self_M :: "int list"
  self_dt_2d :: "rat list"
  nStages :: nat
  trace :: "event list"

definition opts :: "integrator \<Rightarrow> options" where
  "opts s = solver_options (solver s)"

definition emit :: "event \<Rightarrow> integrator \<Rightarrow> integrator outcome" where
  "emit e s = Inr (s\<lparr>trace := trace s @ [e]\<rparr>)"

text \<open>Attribute lookup \<^verbatim>\<open>self.timeStepper_x\<close>.\<close>

definition attr_name :: "stepper \<Rightarrow> string" where
  "attr_name x = (case x of
      TimeStepper2d \<Rightarrow> ''timeStepper2d''
    | TimeStepper_mom3d \<Rightarrow> ''timeStepper_mom3d''
    | TimeStepper_salt3d \<Rightarrow> ''timeStepper_salt3d''
    | TimeStepper_vmom3d \<Rightarrow> ''timeStepper_vmom3d''
    | TimeStepper_tke3d \<Rightarrow> ''timeStepper_tke3d''
    | TimeStepper_psi3d \<Rightarrow> ''timeStepper_psi3d''
    | TimeStepper_tkeAdvEq \<Rightarrow> ''timeStepper_tkeAdvEq''
    | TimeStepper_psiAdvEq \<Rightarrow> ''timeStepper_psiAdvEq'')"

definition lookup_stepper :: "stepper \<Rightarrow> integrator \<Rightarrow> integrator outcome" where
  "lookup_stepper x s =
     (if x \<in> set (steppers s) then Inr s else Inl (AttributeError (attr_name x), s))"

definition call_initialize :: "stepper \<Rightarrow> integrator \<Rightarrow> integrator outcome" where
  "call_initialize x = steps [lookup_stepper x, emit (StepperInitialize x)]"

subsection \<open>Construction of the recipes\<close>

text \<open>
  The loop of the constructors that fills \<^verbatim>\<open>self.stage_w\<close>:
  \<^verbatim>\<open>for i in range(1, len(self.dt_frac))\<close>, appending
  \<^verbatim>\<open>prev_end_time*(1.0 - self.start_frac[i])\<close>.
\<close>

fun stage_w_loop :: "rat list \<Rightarrow> rat list \<Rightarrow> nat list \<Rightarrow> rat list \<Rightarrow> rat list" where
  "stage_w_loop dfrac sfrac [] w = w"
| "stage_w_loop dfrac sfrac (i # rest) w =
     (let prev_end_time = sfrac ! (i - 1) + dfrac ! (i - 1)
      in stage_w_loop dfrac sfrac rest (w @ [prev_end_time * (1 - sfrac ! i)]))"

definition make_stage_w :: "rat list \<Rightarrow> rat list \<Rightarrow> rat list" where
  "make_stage_w dfrac sfrac =
     stage_w_loop dfrac sfrac [1 ..< length dfrac] [1 - sfrac ! 0]"

definition coupledSSPRKSync_init :: "solver_ctx \<Rightarrow> integrator" where
  "coupledSSPRKSync_init sv =
     (let cfg = solver_options sv;
          dfrac = [1, 1 / 4, 2 / 3];
          sfrac = [0, 1 / 4, 1 / 3]
      in \<lparr> recipe_of = SSPRKSync, solver = sv, initialized = False,
           steppers = [TimeStepper2d, TimeStepper_mom3d]
             @ (if solveSalt cfg then [TimeStepper_salt3d] else [])
             @ (if solveVertDiffusion cfg then [TimeStepper_vmom3d] else []),
           dt_frac = dfrac, start_frac = sfrac, stage_w = make_stage_w dfrac sfrac,
           self_M = [], self_dt_2d = [], nStages = 0, trace = [] \<rparr>)"

text \<open>
  \<^verbatim>\<open>coupledSSPIMEX.__init__\<close> raises when a vertical momentum equation is configured;
  the steppers for 2D, momentum and salt are built before the raise.
\<close>

definition coupledSSPIMEX_init :: "solver_ctx \<Rightarrow> error + integrator" where
  "coupledSSPIMEX_init sv =
     (let cfg = solver_options sv
      in if solveVertDiffusion cfg
         then Inl (Exception ''vert mom eq should not exist for this time integrator'')
         else Inr \<lparr> recipe_of = SSPIMEX, solver = sv, initialized = False,
           steppers = [TimeStepper2d, TimeStepper_mom3d]
             @ (if solveSalt cfg then [TimeStepper_salt3d] else [])
             @ (if useTurbulence cfg then [TimeStepper_tke3d, TimeStepper_psi3d] else []),
           dt_frac = [], start_frac = [], stage_w = [],
           self_M = [], self_dt_2d = [], nStages = imex_nStages sv, trace = [] \<rparr>)"

definition coupledSSPRKSemiImplicit_init :: "solver_ctx \<Rightarrow> integrator" where
  "coupledSSPRKSemiImplicit_init sv =
     (let cfg = solver_options sv;
          dfrac = [1, 1 / 4, 2 / 3];
          sfrac = [0, 1 / 4, 1 / 3]
      in \<lparr> recipe_of = SSPRKSemiImplicit, solver = sv, initialized = False,
           steppers = [TimeStepper2d, TimeStepper_mom3d]
             @ (if solveSalt cfg then [TimeStepper_salt3d] else [])
             @ (if solveVertDiffusion cfg then [TimeStepper_vmom3d] else [])
             @ (if useTurbulence cfg then [TimeStepper_tke3d, TimeStepper_psi3d] else []),
           dt_frac = dfrac, start_frac = sfrac, stage_w = make_stage_w dfrac sfrac,
           self_M = [], self_dt_2d = [], nStages = 0, trace = [] \<rparr>)"

definition coupledSSPRKSingleMode_init :: "solver_ctx \<Rightarrow> integrator" where
  "coupledSSPRKSingleMode_init sv =
     (let cfg = solver_options sv
      in \<lparr> recipe_of = SSPRKSingleMode, solver = sv, initialized = False,
           steppers = [TimeStepper2d, TimeStepper_mom3d]
             @ (if solveSalt cfg then [TimeStepper_salt3d] else [])
             @ (if solveVertDiffusion cfg then [TimeStepper_vmom3d] else []),
           dt_frac = [], start_frac = [], stage_w = [],
           self_M = [], self_dt_2d = [], nStages = ssprk_nstages sv, trace = [] \<rparr>)"

text \<open>
  \<^verbatim>\<open>coupledSSPRK.__init__\<close> names the class \<^verbatim>\<open>SSPRK33\<close> without its module; the name is
  taken to be bound by the star import.
\<close>

definition coupledSSPRK_init :: "solver_ctx \<Rightarrow> integrator" where
  "coupledSSPRK_init sv =
     (let cfg = solver_options sv
      in \<lparr> recipe_of = SSPRK, solver = sv, initialized = False,
           steppers = [TimeStepper2d, TimeStepper_mom3d]
             @ (if solveSalt cfg then [TimeStepper_salt3d] else [])
             @ (if solveVertDiffusion cfg then [TimeStepper_vmom3d] else []),
           dt_frac = [], start_frac = [], stage_w = [],
           self_M = [], self_dt_2d = [], nStages = 0, trace = [] \<rparr>)"

subsection \<open>\<^verbatim>\<open>initialize\<close>\<close>

text \<open>
  The sub-cycling loop of \<^verbatim>\<open>initialize\<close>:
  \<^verbatim>\<open>M = int(np.ceil(f*self.solver.dt/self.solver.dt_2d)); dt = f*self.solver.dt/M\<close>.
  Both divisions raise on a zero divisor.
\<close>

fun substep_loop :: "rat list \<Rightarrow> integrator \<Rightarrow> integrator outcome" where
  "substep_loop [] s = Inr s"
| "substep_loop (f # fs) s =
     (if solver_dt_2d (solver s) = 0 then Inl (ZeroDivisionError, s)
      else let m = \<lceil>f * solver_dt (solver s) / solver_dt_2d (solver s)\<rceil>
           in if m = 0 then Inl (ZeroDivisionError, s)
              else let d = f * solver_dt (solver s) / of_int m
                   in substep_loop fs
                        (s\<lparr>self_M := self_M s @ [m], self_dt_2d := self_dt_2d s @ [d]\<rparr>))"

definition init_common :: "integrator \<Rightarrow> integrator outcome" where
  "init_common s = steps
     [call_initialize TimeStepper2d,
      call_initialize TimeStepper_mom3d,
      when_do (solveSalt (opts s)) (call_initialize TimeStepper_salt3d),
      when_do (solveVertDiffusion (opts s)) (call_initialize TimeStepper_vmom3d)] s"

definition initialize_subcycling :: "integrator \<Rightarrow> integrator outcome" where
  "initialize_subcycling s = steps
     [init_common,
      (\<lambda>s. Inr (s\<lparr>self_M := [], self_dt_2d := []\<rparr>)),
      (\<lambda>s. substep_loop (dt_frac s) s),
      (\<lambda>s. Inr (s\<lparr>initialized := True\<rparr>))] s"

definition initialize_plain :: "integrator \<Rightarrow> integrator outcome" where
  "initialize_plain s = steps
     [init_common,
      (\<lambda>s. Inr (s\<lparr>initialized := True\<rparr>))] s"

text \<open>
  \<^verbatim>\<open>coupledSSPRK.initialize\<close> reads \<^verbatim>\<open>self.options.options\<close>, where the other
  recipes read \<^verbatim>\<open>self.options\<close>; the options object is taken to have no attribute
  \<^verbatim>\<open>options\<close>.
\<close>

definition coupledSSPRK_initialize :: "integrator \<Rightarrow> integrator outcome" where
  "coupledSSPRK_initialize s = steps
     [call_initialize TimeStepper2d,
      call_initialize TimeStepper_mom3d,
      raise (AttributeError ''options'')] s"

definition initialize :: "integrator \<Rightarrow> integrator outcome" where
  "initialize s = (case recipe_of s of
       SSPRKSync \<Rightarrow> initialize_subcycling s
     | SSPRKSemiImplicit \<Rightarrow> initialize_subcycling s
     | SSPIMEX \<Rightarrow> initialize_plain s
     | SSPRKSingleMode \<Rightarrow> initialize_plain s
     | SSPRK \<Rightarrow> coupledSSPRK_initialize s)"

subsection \<open>The dependency-update pipeline\<close>

definition update3dElevation :: "integrator \<Rightarrow> integrator outcome" where
  "update3dElevation = steps [emit (Copy2dFieldTo3d Elev2d Elev3d), emit Project_elev3d_to_CG]"

definition updateVerticalVelocity :: "integrator \<Rightarrow> integrator outcome" where
  "updateVerticalVelocity = emit ComputeVertVelocity"

definition updateMovingMesh :: "integrator \<Rightarrow> integrator outcome" where
  "updateMovingMesh s =
     when_do (useALEMovingMesh (opts s))
       (steps [emit UpdateCoordinates, emit ComputeElemHeight,
               emit (Copy3dFieldTo2d VElemSize3d VElemSize2d)]) s"

definition updateBottomFriction :: "integrator \<Rightarrow> integrator outcome" where
  "updateBottomFriction s = steps
     [when_do (useBottomFriction (opts s)) (steps [emit Project_uvP1, emit ComputeBottomFriction]),
      when_do (useParabolicViscosity (opts s)) (emit ComputeParabolicViscosity)] s"

text \<open>
  \<^verbatim>\<open>_update2DCoupling\<close> is overloaded in \<^verbatim>\<open>coupledSSPRKSingleMode\<close> and in
  \<^verbatim>\<open>coupledSSPRK\<close>; the other recipes inherit the version of the base class.
\<close>

definition update2DCoupling :: "integrator \<Rightarrow> integrator outcome" where
  "update2DCoupling s = (case recipe_of s of
       SSPRKSingleMode \<Rightarrow> steps
         [emit ComputeVerticalIntegral, emit (Copy3dFieldTo2d UvDav3d UvDav2d),
          emit (Assign Uv2d UvDav2d)] s
     | SSPRK \<Rightarrow> steps
         [emit ComputeVerticalIntegral, emit (Copy3dFieldTo2d UvDav3d UvDav2d),
          emit (Copy2dFieldTo3d UvDav2d UvDav3d), emit (Assign Uv2d_start UvDav2d)] s
     | _ \<Rightarrow> steps
         [emit ComputeVerticalIntegral, emit (Copy3dFieldTo2d UvDav3d UvDav2d),
          emit (Copy2dFieldTo3d UvDav2d UvDav3d), emit Sub_uv3d_uvDav3d,
          emit (Copy2dFieldTo3d Uv2d UvDav3d), emit Add_uv3d_uvDav3d] s)"

definition updateMeshVelocity :: "integrator \<Rightarrow> integrator outcome" where
  "updateMeshVelocity s = when_do (useALEMovingMesh (opts s)) (emit ComputeMeshVelocity) s"

definition updateBaroclinicity :: "integrator \<Rightarrow> integrator outcome" where
  "updateBaroclinicity s = when_do (baroclinic (opts s)) (emit ComputeBaroclinicHead) s"

text \<open>
  \<^verbatim>\<open>self.timeStepper_x.advance(t, self.solver.dt, ...)\<close> inside the pipeline. The name
  \<^verbatim>\<open>t\<close> is neither a parameter nor a local of the enclosing method, so it is looked up
  at module level; \<open>module_t\<close> is that binding (\<open>None\<close>: the name is unbound; the module
  itself defines no \<^verbatim>\<open>t\<close>, and whether the star import of \<^verbatim>\<open>utility\<close> supplies one
  is a parameter). Python evaluates the attribute \<^verbatim>\<open>self.timeStepper_x\<close> before the
  arguments.
\<close>

definition advance_at_module_t :: "rat option \<Rightarrow> stepper \<Rightarrow> integrator \<Rightarrow> integrator outcome" where
  "advance_at_module_t module_t x = steps
     [lookup_stepper x,
      (\<lambda>s. case module_t of
          None \<Rightarrow> Inl (NameError ''t'', s)
        | Some t \<Rightarrow> emit (StepperAdvance x t (solver_dt (solver s))) s)]"

definition updateTurbulence :: "rat option \<Rightarrow> integrator \<Rightarrow> integrator outcome" where
  "updateTurbulence module_t s =
     when_do (useTurbulence (opts s))
       (steps
         [emit GlsPreprocess,
          advance_at_module_t module_t TimeStepper_psi3d,
          advance_at_module_t module_t TimeStepper_tke3d,
          when_do (useLimiterForTracers (opts s))
            (steps [emit (LimiterApply Tke3d), emit (LimiterApply Psi3d)]),
          emit GlsPostprocess]) s"

definition updateStabilizationParams :: "integrator \<Rightarrow> integrator outcome" where
  "updateStabilizationParams s = steps
     [emit ComputeVelMagnitude,
      emit Project_uvP1,
      when_do (smagorinskyFactor (opts s) \<noteq> None) (emit SmagorinskyViscosity),
      when_do (saltJumpDiffFactor (opts s) \<noteq> None) (emit ComputeHorizJumpDiffusivity)] s"

text \<open>
  \<^verbatim>\<open>_updateAllDependencies\<close>. The first event records the call and its flags; the
  rest is the body in source order.
\<close>

definition updateAllDependencies :: "rat option \<Rightarrow> flags \<Rightarrow> integrator \<Rightarrow> integrator outcome" where
  "updateAllDependencies module_t fl s = steps
     [emit (Enter_updateAllDependencies fl),
      update3dElevation,
      when_do (doALEUpdate fl) updateMovingMesh,
      when_do (doVertDiffusion fl \<and> solveVertDiffusion (opts s))
        (advance_at_module_t module_t TimeStepper_vmom3d),
      when_do (do2DCoupling fl) update2DCoupling,
      updateVerticalVelocity,
      when_do (doTurbulence fl) (updateTurbulence module_t),
      updateMeshVelocity,
      updateBottomFriction,
      updateBaroclinicity,
      when_do (doStabParams fl) updateStabilizationParams] s"

subsection \<open>\<^verbatim>\<open>advance\<close> of the five recipes\<close>

definition call_solveStage :: "stepper \<Rightarrow> nat \<Rightarrow> rat \<Rightarrow> rat \<Rightarrow> integrator \<Rightarrow> integrator outcome" where
  "call_solveStage x k t d = steps [lookup_stepper x, emit (StepperSolveStage x k t d)]"

definition call_advance :: "stepper \<Rightarrow> rat \<Rightarrow> rat \<Rightarrow> integrator \<Rightarrow> integrator outcome" where
  "call_advance x t d = steps [lookup_stepper x, emit (StepperAdvance x t d)]"

text \<open>\<^verbatim>\<open>if not self._initialized: self.initialize()\<close>, for the class whose \<^verbatim>\<open>initialize\<close> is \<open>ini\<close>.\<close>

definition ensure_initialized ::
  "(integrator \<Rightarrow> integrator outcome) \<Rightarrow> integrator \<Rightarrow> integrator outcome" where
  "ensure_initialized ini s = (if \<not> initialized s then ini s else Inr s)"

text \<open>The \<^verbatim>\<open>mode2d\<close> block of \<^verbatim>\<open>coupledSSPRKSync.advance\<close>: blend, then \<^verbatim>\<open>M[k]\<close> inner steps.\<close>

definition sync_mode2d :: "rat \<Rightarrow> nat \<Rightarrow> integrator \<Rightarrow> integrator outcome" where
  "sync_mode2d t k s =
     (case getitem (start_frac s) k of Inl e \<Rightarrow> Inl (e, s) | Inr sf \<Rightarrow>
      case getitem (self_dt_2d s) k of Inl e \<Rightarrow> Inl (e, s) | Inr dt_2d \<Rightarrow>
      case getitem (stage_w s) k of Inl e \<Rightarrow> Inl (e, s) | Inr w \<Rightarrow>
      case getitem (self_M s) k of Inl e \<Rightarrow> Inl (e, s\<lparr>trace := trace s @ [Blend_sol2d w]\<rparr>) | Inr m \<Rightarrow>
        (let t_rhs = t + sf * solver_dt (solver s)
         in steps
              [emit (Blend_sol2d w),
               for_each [0 ..< nat m]
                 (\<lambda>i. call_advance TimeStepper2d (t_rhs + of_nat i * dt_2d) dt_2d)] s))"

definition sync_stage :: "rat option \<Rightarrow> rat \<Rightarrow> nat \<Rightarrow> integrator \<Rightarrow> integrator outcome" where
  "sync_stage module_t t k s =
     (let lastStep = (k = 2)
      in steps
        [when_do (solveSalt (opts s))
           (steps [call_solveStage TimeStepper_salt3d k t (solver_dt (solver s)),
                   when_do (useLimiterForTracers (opts s)) (emit (LimiterApply Salt3d))]),
         call_solveStage TimeStepper_mom3d k t (solver_dt (solver s)),
         sync_mode2d t k,
         updateAllDependencies module_t
           \<lparr>do2DCoupling = lastStep, doVertDiffusion = lastStep, doALEUpdate = lastStep,
            doStabParams = lastStep, doTurbulence = lastStep\<rparr>] s)"

definition coupledSSPRKSync_advance :: "rat option \<Rightarrow> rat \<Rightarrow> integrator \<Rightarrow> integrator outcome" where
  "coupledSSPRKSync_advance module_t t = steps
     [ensure_initialized initialize_subcycling,
      lookup_stepper TimeStepper2d,
      emit (Assign Sol2d_n Solution2d),
      (\<lambda>s. for_each [0 ..< length (dt_frac s)] (sync_stage module_t t) s)]"

definition imex_stage :: "rat option \<Rightarrow> rat \<Rightarrow> nat \<Rightarrow> integrator \<Rightarrow> integrator outcome" where
  "imex_stage module_t t k s =
     (let lastStep = (int k = int (nStages s) - 1);
          d = solver_dt (solver s)
      in steps
        [when_do (solveSalt (opts s))
           (steps [call_solveStage TimeStepper_salt3d k t d,
                   when_do (useLimiterForTracers (opts s) \<and> lastStep) (emit (LimiterApply Salt3d))]),
         when_do (useTurbulenceAdvection (opts s))
           (steps [call_solveStage TimeStepper_tkeAdvEq k t d,
                   call_solveStage TimeStepper_psiAdvEq k t d,
                   when_do (useLimiterForTracers (opts s) \<and> lastStep)
                     (steps [emit (LimiterApply Tke3d), emit (LimiterApply Psi3d)])]),
         call_solveStage TimeStepper_mom3d k t d,
         call_solveStage TimeStepper2d k t d,
         when_do (useTurbulence (opts s))
           (steps [call_solveStage TimeStepper_psi3d k t d,
                   call_solveStage TimeStepper_tke3d k t d,
                   when_do (useLimiterForTracers (opts s))
                     (steps [emit (LimiterApply Tke3d), emit (LimiterApply Psi3d)]),
                   emit GlsPostprocess,
                   emit GlsPreprocess]),
         updateAllDependencies module_t
           \<lparr>do2DCoupling = lastStep, doVertDiffusion = False, doALEUpdate = lastStep,
            doStabParams = lastStep, doTurbulence = False\<rparr>] s)"

definition coupledSSPIMEX_advance :: "rat option \<Rightarrow> rat \<Rightarrow> integrator \<Rightarrow> integrator outcome" where
  "coupledSSPIMEX_advance module_t t = steps
     [ensure_initialized initialize_plain,
      (\<lambda>s. for_each [0 ..< nStages s] (imex_stage module_t t) s)]"

definition semiimplicit_stage :: "rat option \<Rightarrow> rat \<Rightarrow> nat \<Rightarrow> integrator \<Rightarrow> integrator outcome" where
  "semiimplicit_stage module_t t k s =
     (let lastStep = (k = 2);
          d = solver_dt (solver s)
      in steps
        [when_do (solveSalt (opts s))
           (steps [call_solveStage TimeStepper_salt3d k t d,
                   when_do (useLimiterForTracers (opts s)) (emit (LimiterApply Salt3d))]),
         when_do (useTurbulenceAdvection (opts s))
           (steps [call_solveStage TimeStepper_tkeAdvEq k t d,
                   call_solveStage TimeStepper_psiAdvEq k t d,
                   when_do (useLimiterForTracers (opts s))
                     (steps [emit (LimiterApply Tke3d), emit (LimiterApply Psi3d)])]),
         call_solveStage TimeStepper_mom3d k t d,
         call_solveStage TimeStepper2d k t d,
         updateAllDependencies module_t
           \<lparr>do2DCoupling = lastStep, doVertDiffusion = lastStep, doALEUpdate = lastStep,
            doStabParams = lastStep, doTurbulence = lastStep\<rparr>] s)"

definition coupledSSPRKSemiImplicit_advance ::
  "rat option \<Rightarrow> rat \<Rightarrow> integrator \<Rightarrow> integrator outcome" where
  "coupledSSPRKSemiImplicit_advance module_t t = steps
     [ensure_initialized initialize_subcycling,
      lookup_stepper TimeStepper2d,
      (\<lambda>s. for_each [0 ..< length (dt_frac s)] (semiimplicit_stage module_t t) s)]"

text \<open>\<^verbatim>\<open>coupledSSPRKSingleMode.advance\<close> and \<^verbatim>\<open>coupledSSPRK.advance\<close> do not read \<^verbatim>\<open>self._initialized\<close>.\<close>

definition singlemode_stage :: "rat option \<Rightarrow> rat \<Rightarrow> nat \<Rightarrow> integrator \<Rightarrow> integrator outcome" where
  "singlemode_stage module_t t k s =
     (let lastStep = (k = 2);
          d = solver_dt_2d (solver s)
      in steps
        [when_do (solveSalt (opts s))
           (steps [call_solveStage TimeStepper_salt3d k t d,
                   when_do (useLimiterForTracers (opts s)) (emit (LimiterApply Salt3d))]),
         call_solveStage TimeStepper_mom3d k t d,
         call_solveStage TimeStepper2d k t d,
         updateAllDependencies module_t
           \<lparr>do2DCoupling = True, doVertDiffusion = lastStep, doALEUpdate = lastStep,
            doStabParams = lastStep, doTurbulence = lastStep\<rparr>] s)"

definition coupledSSPRKSingleMode_advance ::
  "rat option \<Rightarrow> rat \<Rightarrow> integrator \<Rightarrow> integrator outcome" where
  "coupledSSPRKSingleMode_advance module_t t = steps
     [lookup_stepper TimeStepper2d,
      (\<lambda>s. for_each [0 ..< nStages s] (singlemode_stage module_t t) s)]"

definition coupledSSPRK_advance :: "rat \<Rightarrow> integrator \<Rightarrow> integrator outcome" where
  "coupledSSPRK_advance t s = steps
     [call_advance TimeStepper2d t (solver_dt_2d (solver s)),
      emit (Copy2dFieldTo3d Elev2d Elev3d),
      emit (Copy2dFieldTo3d Elev2d_nplushalf Elev3d_nplushalf),
      updateMovingMesh,
      updateBottomFriction,
      updateBaroclinicity,
      call_advance TimeStepper_mom3d t (solver_dt (solver s)),
      when_do (solveVertDiffusion (opts s))
        (call_advance TimeStepper_vmom3d t (solver_dt (solver s))),
      updateVerticalVelocity,
      updateMeshVelocity,
      when_do (solveSalt (opts s))
        (call_advance TimeStepper_salt3d t (solver_dt (solver s))),
      update2DCoupling] s"

text \<open>Method dispatch on the class of the object.\<close>

definition advance :: "rat option \<Rightarrow> rat \<Rightarrow> integrator \<Rightarrow> integrator outcome" where
  "advance module_t t s = (case recipe_of s of
       SSPRKSync \<Rightarrow> coupledSSPRKSync_advance module_t t s
     | SSPIMEX \<Rightarrow> coupledSSPIMEX_advance module_t t s
     | SSPRKSemiImplicit \<Rightarrow> coupledSSPRKSemiImplicit_advance module_t t s
     | SSPRKSingleMode \<Rightarrow> coupledSSPRKSingleMode_advance module_t t s
     | SSPRK \<Rightarrow> coupledSSPRK_advance t s)"

subsection \<open>Horizontal advection of the 3D momentum equation\<close>

text \<open>
  \<^verbatim>\<open>MomentumEquation.horizontal_advection\<close> builds a weak form by adding terms to \<^verbatim>\<open>f\<close>.
  The form is modelled as the list of the terms added, in order; \<^verbatim>\<open>return 0\<close> is the
  empty list. \<open>bnd_functions\<close> maps a boundary marker to the keys of its dictionary of
  external functions.
\<close>

datatype gamma_source = Gamma_uv_p1 | Gamma_uv_mag

datatype adv_term =
    Volume_term
  | Interior_flux_term
  | LaxFriedrichs_interior gamma_source
  | LaxFriedrichs_closed_bnd nat
  | Flux_bnd_term nat
  | LaxFriedrichs_flux_bnd nat
  | Surface_term
  | Div_form_term

record momentum_equation =
  nonlin :: bool
  horiz_advection_by_parts :: bool
  horizontal_dg :: bool
  boundary_markers :: "nat list"
  bnd_functions :: "nat \<rightharpoonup> string list"

text \<open>The block under the comment \<^verbatim>\<open># Lax-Friedrichs stabilization\<close> on interior facets.\<close>

definition lax_friedrichs_interior ::
  "rat option \<Rightarrow> 'a option \<Rightarrow> 'b option \<Rightarrow> error + adv_term list" where
  "lax_friedrichs_interior lax_friedrichs_factor uv_mag uv_p1 =
     (if lax_friedrichs_factor \<noteq> None \<and> uv_mag \<noteq> None then
        (if uv_p1 \<noteq> None then Inr [LaxFriedrichs_interior Gamma_uv_p1]
         else if uv_mag \<noteq> None then Inr [LaxFriedrichs_interior Gamma_uv_mag]
         else Inl (Exception ''either uv_p1 or uv_mag must be given''))
      else Inr [])"

text \<open>\<^verbatim>\<open>for bnd_marker in self.boundary_markers\<close>\<close>

fun boundary_terms :: "momentum_equation \<Rightarrow> rat option \<Rightarrow> nat list \<Rightarrow> adv_term list" where
  "boundary_terms eq lax_friedrichs_factor [] = []"
| "boundary_terms eq lax_friedrichs_factor (bnd_marker # rest) =
     (case bnd_functions eq bnd_marker of
        None \<Rightarrow>
          (if lax_friedrichs_factor \<noteq> None then [LaxFriedrichs_closed_bnd bnd_marker] else [])
      | Some funcs \<Rightarrow>
          (if ''flux'' \<in> set funcs then
             (if nonlin eq then
                [Flux_bnd_term bnd_marker]
                @ (if lax_friedrichs_factor \<noteq> None then [LaxFriedrichs_flux_bnd bnd_marker] else [])
              else [])
           else []))
     @ boundary_terms eq lax_friedrichs_factor rest"

definition horizontal_advection ::
  "momentum_equation \<Rightarrow> rat option \<Rightarrow> 'a option \<Rightarrow> 'b option \<Rightarrow> error + adv_term list" where
  "horizontal_advection eq lax_friedrichs_factor uv_mag uv_p1 =
     (if \<not> nonlin eq then Inr []
      else if horiz_advection_by_parts eq then
        (if horizontal_dg eq then
           (case lax_friedrichs_interior lax_friedrichs_factor uv_mag uv_p1 of
              Inl e \<Rightarrow> Inl e
            | Inr lf \<Rightarrow>
                Inr ([Volume_term, Interior_flux_term] @ lf
                     @ boundary_terms eq lax_friedrichs_factor (boundary_markers eq)
                     @ [Surface_term]))
         else Inr [Volume_term, Surface_term])
      else Inr [Div_form_term])"

subsection \<open>The forward Euler stepper\<close>

text \<open>
  \<^verbatim>\<open>ForwardEuler\<close> of \<^verbatim>\<open>thetis/timeintegrator.py\<close>. \<open>fe_fields\<close> and \<open>fe_fields_old\<close> are the
  dictionaries \<^verbatim>\<open>self.fields\<close> and \<^verbatim>\<open>self.fields_old\<close>; \<open>fe_forcing_calls\<close> logs the times
  at which the forcing callback has been called.
\<close>

record 'a forward_euler =
  fe_dt :: rat
  fe_dt_const :: rat
  fe_solution :: 'a
  fe_solution_old :: 'a
  fe_fields :: "string \<rightharpoonup> 'a"
  fe_fields_old :: "string \<rightharpoonup> 'a"
  fe_forcing_calls :: "rat list"

definition ForwardEuler_initialize :: "'a \<Rightarrow> 'a forward_euler \<Rightarrow> 'a forward_euler" where
  "ForwardEuler_initialize solution s =
     s\<lparr>fe_solution_old := solution,
       fe_fields_old := (\<lambda>k. case fe_fields_old s k of None \<Rightarrow> None | Some v \<Rightarrow> fe_fields s k)\<rparr>"

text \<open>
  \<^verbatim>\<open>ForwardEuler.advance(self, t, update_forcings=None)\<close>. Its first statement is
  \<^verbatim>\<open>self.dt_const.assign(dt)\<close>; \<^verbatim>\<open>dt\<close> is neither a parameter nor a local, so it is looked
  up at module level: \<open>module_dt\<close> is that binding, \<open>None\<close> when the name is unbound (the
  module defines no \<^verbatim>\<open>dt\<close>). \<open>solve\<close> stands for \<^verbatim>\<open>self.solver.solve()\<close>; the callback
  acts on the fields.
\<close>

definition ForwardEuler_advance ::
  "rat option \<Rightarrow> ('a forward_euler \<Rightarrow> 'a) \<Rightarrow> rat
     \<Rightarrow> (rat \<Rightarrow> (string \<rightharpoonup> 'a) \<Rightarrow> (string \<rightharpoonup> 'a)) option
     \<Rightarrow> 'a forward_euler \<Rightarrow> 'a forward_euler outcome" where
  "ForwardEuler_advance module_dt solve t update_forcings s =
     (case module_dt of
        None \<Rightarrow> Inl (NameError ''dt'', s)
      | Some dt \<Rightarrow>
          (let s1 = s\<lparr>fe_dt_const := dt\<rparr>;
               s2 = (case update_forcings of
                       None \<Rightarrow> s1
                     | Some cb \<Rightarrow>
                         s1\<lparr>fe_fields := cb (t + fe_dt s1) (fe_fields s1),
                            fe_forcing_calls := fe_forcing_calls s1 @ [t + fe_dt s1]\<rparr>);
               s3 = s2\<lparr>fe_solution_old := fe_solution s2\<rparr>;
               s4 = s3\<lparr>fe_solution := solve s3\<rparr>
           in Inr (s4\<lparr>fe_fields_old :=
                 (\<lambda>k. case fe_fields_old s4 k of None \<Rightarrow> None | Some v \<Rightarrow> fe_fields s4 k)\<rparr>)))"

subsection \<open>Observations on results and traces\<close>

definition final :: "'s outcome \<Rightarrow> 's" where
  "final r = (case r of Inl (e, s) \<Rightarrow> s | Inr s \<Rightarrow> s)"

definition raised :: "'s outcome \<Rightarrow> error option" where
  "raised r = (case r of Inl (e, s) \<Rightarrow> Some e | Inr s \<Rightarrow> None)"

text \<open>The flag tuples of the pipeline calls on a trace, in call order.\<close>

fun pipeline_calls :: "event list \<Rightarrow> flags list" where
  "pipeline_calls [] = []"
| "pipeline_calls (Enter_updateAllDependencies fl # es) = fl # pipeline_calls es"
| "pipeline_calls (e # es) = pipeline_calls es"

text \<open>The events of the turbulence closure on a trace: pre- and post-processing and the
  advances of \<open>psi\<close> and \<open>tke\<close>.\<close>

fun is_turbulence_event :: "event \<Rightarrow> bool" where
  "is_turbulence_event GlsPreprocess = True"
| "is_turbulence_event GlsPostprocess = True"
| "is_turbulence_event (StepperAdvance x t d) = (x = TimeStepper_psi3d \<or> x = TimeStepper_tke3d)"
| "is_turbulence_event (StepperSolveStage x k t d) = (x = TimeStepper_psi3d \<or> x = TimeStepper_tke3d)"
| "is_turbulence_event e = False"

definition turbulence_events :: "event list \<Rightarrow> event list" where
  "turbulence_events es = filter is_turbulence_event es"

fun advances :: "stepper \<Rightarrow> event \<Rightarrow> bool" where
  "advances x (StepperAdvance y t d) = (x = y)"
| "advances x (StepperSolveStage y k t d) = (x = y)"
| "advances x e = False"

text \<open>A sequence of turbulence updates, each one pre-processing, \<open>psi\<close>, \<open>tke\<close>,
  post-processing.\<close>

fun bracketed :: "event list \<Rightarrow> bool" where
  "bracketed [] = True"
| "bracketed (a # b # c # d # es) =
     (a = GlsPreprocess \<and> advances TimeStepper_psi3d b \<and> advances TimeStepper_tke3d c
      \<and> d = GlsPostprocess \<and> bracketed es)"
| "bracketed es = False"

text \<open>Agreement to the four decimals that a table of weights prints.\<close>

definition approx4 :: "rat \<Rightarrow> rat \<Rightarrow> bool" where
  "approx4 x y = (\<bar>x - y\<bar> \<le> 5 / 100000)"

subsection \<open>A sample configuration\<close>

definition demo_options :: options where
  "demo_options = \<lparr> useALEMovingMesh = False, useBottomFriction = False,
     useParabolicViscosity = False, baroclinic = False, useTurbulence = False,
     useTurbulenceAdvection = False, useLimiterForTracers = False, solveSalt = False,
     solveVertDiffusion = False, smagorinskyFactor = None, saltJumpDiffFactor = None \<rparr>"

definition demo_solver :: solver_ctx where
  "demo_solver = \<lparr> solver_options = demo_options, solver_dt = 10, solver_dt_2d = 3,
     imex_nStages = 3, ssprk_nstages = 3 \<rparr>"

definition demo_equation :: momentum_equation where
  "demo_equation = \<lparr> nonlin = True, horiz_advection_by_parts = True, horizontal_dg = True,
     boundary_markers = [], bnd_functions = Map.empty \<rparr>"

subsection \<open>Trace extensions\<close>

text \<open>
  The object \<open>s\<close> after the events \<open>evs\<close> have been appended to its trace, and a list of
  events that is present under a condition. Both only serve to write down what a
  method has appended.
\<close>

definition ext :: "integrator \<Rightarrow> event list \<Rightarrow> integrator" where
  "ext s evs = s\<lparr>trace := trace s @ evs\<rparr>"

definition only_if :: "bool \<Rightarrow> 'a list \<Rightarrow> 'a list" where
  "only_if b xs = (if b then xs else [])"

text \<open>The events of the steps of the dependency pipeline, as the methods append them.\<close>

definition elevation_events :: "event list" where
  "elevation_events = [Copy2dFieldTo3d Elev2d Elev3d, Project_elev3d_to_CG]"

definition moving_mesh_events :: "options \<Rightarrow> event list" where
  "moving_mesh_events cfg = only_if (useALEMovingMesh cfg)
     [UpdateCoordinates, ComputeElemHeight, Copy3dFieldTo2d VElemSize3d VElemSize2d]"

definition coupling_events :: "recipe \<Rightarrow> event list" where
  "coupling_events r = (case r of
       SSPRKSingleMode \<Rightarrow>
         [ComputeVerticalIntegral, Copy3dFieldTo2d UvDav3d UvDav2d, Assign Uv2d UvDav2d]
     | SSPRK \<Rightarrow>
         [ComputeVerticalIntegral, Copy3dFieldTo2d UvDav3d UvDav2d,
          Copy2dFieldTo3d UvDav2d UvDav3d, Assign Uv2d_start UvDav2d]
     | _ \<Rightarrow>
         [ComputeVerticalIntegral, Copy3dFieldTo2d UvDav3d UvDav2d,
          Copy2dFieldTo3d UvDav2d UvDav3d, Sub_uv3d_uvDav3d,
          Copy2dFieldTo3d Uv2d UvDav3d, Add_uv3d_uvDav3d])"

definition turbulence_update_events :: "options \<Rightarrow> rat \<Rightarrow> rat \<Rightarrow> event list" where
  "turbulence_update_events cfg t d =
     [GlsPreprocess, StepperAdvance TimeStepper_psi3d t d, StepperAdvance TimeStepper_tke3d t d]
     @ only_if (useLimiterForTracers cfg) [LimiterApply Tke3d, LimiterApply Psi3d]
     @ [GlsPostprocess]"

definition mesh_velocity_events :: "options \<Rightarrow> event list" where
  "mesh_velocity_events cfg = only_if (useALEMovingMesh cfg) [ComputeMeshVelocity]"

definition bottom_friction_events :: "options \<Rightarrow> event list" where
  "bottom_friction_events cfg =
     only_if (useBottomFriction cfg) [Project_uvP1, ComputeBottomFriction]
     @ only_if (useParabolicViscosity cfg) [ComputeParabolicViscosity]"

definition baroclinicity_events :: "options \<Rightarrow> event list" where
  "baroclinicity_events cfg = only_if (baroclinic cfg) [ComputeBaroclinicHead]"

definition stabilization_events :: "options \<Rightarrow> event list" where
  "stabilization_events cfg =
     [ComputeVelMagnitude, Project_uvP1]
     @ only_if (smagorinskyFactor cfg \<noteq> None) [SmagorinskyViscosity]
     @ only_if (saltJumpDiffFactor cfg \<noteq> None) [ComputeHorizJumpDiffusivity]"

text \<open>
  The events of one run of the pipeline after the entry event, in the order of the
  method body; \<open>vdiff\<close> and \<open>turb\<close> are the events of the vertical diffusion step and
  of the turbulence update.
\<close>

definition pipeline_events ::
  "recipe \<Rightarrow> options \<Rightarrow> flags \<Rightarrow> event list \<Rightarrow> event list \<Rightarrow> event list" where
  "pipeline_events r cfg fl vdiff turb =
     elevation_events
     @ only_if (doALEUpdate fl) (moving_mesh_events cfg)
     @ vdiff
     @ only_if (do2DCoupling fl) (coupling_events r)
     @ [ComputeVertVelocity]
     @ turb
     @ mesh_velocity_events cfg
     @ bottom_friction_events cfg
     @ baroclinicity_events cfg
     @ only_if (doStabParams fl) (stabilization_events cfg)"

text \<open>Calls of a stepper's \<^verbatim>\<open>initialize\<close> on a trace.\<close>

fun is_initialize_event :: "event \<Rightarrow> bool" where
  "is_initialize_event (StepperInitialize x) = True"
| "is_initialize_event e = False"

subsection \<open>Auxiliary notions for the stage iteration\<close>

text \<open>
  \<open>frame s s'\<close>: the object \<open>s'\<close> has the pipeline calls of \<open>s\<close> on its trace and the same
  configuration. A step is quiet when it preserves the frame, whether it returns or raises.
\<close>

definition frame :: "integrator \<Rightarrow> integrator \<Rightarrow> bool" where
  "frame s s' = (pipeline_calls (trace s') = pipeline_calls (trace s)
     \<and> nStages s' = nStages s \<and> solver s' = solver s
     \<and> recipe_of s' = recipe_of s \<and> steppers s' = steppers s)"

definition quiet :: "(integrator \<Rightarrow> integrator outcome) \<Rightarrow> bool" where
  "quiet f = (\<forall>s. frame s (final (f s)))"

text \<open>The flags that stage \<open>k\<close> of \<open>n\<close> of \<^verbatim>\<open>coupledSSPIMEX.advance\<close> passes to the pipeline.\<close>

definition imex_flags :: "nat \<Rightarrow> nat \<Rightarrow> flags" where
  "imex_flags n k = \<lparr>do2DCoupling = (Suc k = n), doVertDiffusion = False,
     doALEUpdate = (Suc k = n), doStabParams = (Suc k = n), doTurbulence = False\<rparr>"

text \<open>The statements of a stage of \<^verbatim>\<open>coupledSSPIMEX.advance\<close> before the pipeline call.\<close>

definition imex_pre :: "rat \<Rightarrow> nat \<Rightarrow> integrator \<Rightarrow> (integrator \<Rightarrow> integrator outcome) list" where
  "imex_pre t k s =
        [when_do (solveSalt (opts s))
           (steps [call_solveStage TimeStepper_salt3d k t (solver_dt (solver s)),
                   when_do (useLimiterForTracers (opts s) \<and> Suc k = nStages s)
                     (emit (LimiterApply Salt3d))]),
         when_do (useTurbulenceAdvection (opts s))
           (steps [call_solveStage TimeStepper_tkeAdvEq k t (solver_dt (solver s)),
                   call_solveStage TimeStepper_psiAdvEq k t (solver_dt (solver s)),
                   when_do (useLimiterForTracers (opts s) \<and> Suc k = nStages s)
                     (steps [emit (LimiterApply Tke3d), emit (LimiterApply Psi3d)])]),
         call_solveStage TimeStepper_mom3d k t (solver_dt (solver s)),
         call_solveStage TimeStepper2d k t (solver_dt (solver s)),
         when_do (useTurbulence (opts s))
           (steps [call_solveStage TimeStepper_psi3d k t (solver_dt (solver s)),
                   call_solveStage TimeStepper_tke3d k t (solver_dt (solver s)),
                   when_do (useLimiterForTracers (opts s))
                     (steps [emit (LimiterApply Tke3d), emit (LimiterApply Psi3d)]),
                   emit GlsPostprocess,
                   emit GlsPreprocess])]"

text \<open>
  An object on which no attribute lookup of \<^verbatim>\<open>coupledSSPIMEX.advance\<close> fails, and the
  events that \<^verbatim>\<open>initialize\<close> and one stage append to its trace.
\<close>

definition imex_ready :: "integrator \<Rightarrow> bool" where
  "imex_ready s = (TimeStepper2d \<in> set (steppers s) \<and> TimeStepper_mom3d \<in> set (steppers s)
     \<and> (solveSalt (opts s) \<longrightarrow> TimeStepper_salt3d \<in> set (steppers s))
     \<and> (useTurbulence (opts s) \<longrightarrow>
           TimeStepper_psi3d \<in> set (steppers s) \<and> TimeStepper_tke3d \<in> set (steppers s))
     \<and> \<not> useTurbulenceAdvection (opts s)
     \<and> \<not> solveVertDiffusion (opts s))"

definition imex_turbulence_stage_events :: "options \<Rightarrow> nat \<Rightarrow> rat \<Rightarrow> rat \<Rightarrow> event list" where
  "imex_turbulence_stage_events cfg k t d =
     [StepperSolveStage TimeStepper_psi3d k t d, StepperSolveStage TimeStepper_tke3d k t d]
     @ only_if (useLimiterForTracers cfg) [LimiterApply Tke3d, LimiterApply Psi3d]
     @ [GlsPostprocess, GlsPreprocess]"

definition imex_stage_events :: "recipe \<Rightarrow> options \<Rightarrow> nat \<Rightarrow> nat \<Rightarrow> rat \<Rightarrow> rat \<Rightarrow> event list" where
  "imex_stage_events r cfg n k t d =
     only_if (solveSalt cfg)
       (StepperSolveStage TimeStepper_salt3d k t d
        # only_if (useLimiterForTracers cfg \<and> Suc k = n) [LimiterApply Salt3d])
     @ [StepperSolveStage TimeStepper_mom3d k t d, StepperSolveStage TimeStepper2d k t d]
     @ only_if (useTurbulence cfg) (imex_turbulence_stage_events cfg k t d)
     @ Enter_updateAllDependencies (imex_flags n k)
       # pipeline_events r cfg (imex_flags n k) [] []"

definition init_plain_events :: "options \<Rightarrow> event list" where
  "init_plain_events cfg =
     [StepperInitialize TimeStepper2d, StepperInitialize TimeStepper_mom3d]
     @ only_if (solveSalt cfg) [StepperInitialize TimeStepper_salt3d]"

text \<open>Sample configurations with turbulence and with vertical diffusion.\<close>

definition demo_turbulence_solver :: solver_ctx where
  "demo_turbulence_solver = demo_solver\<lparr>solver_options := demo_options\<lparr>useTurbulence := True\<rparr>\<rparr>"

definition demo_vdiff_solver :: solver_ctx where
  "demo_vdiff_solver = demo_solver\<lparr>solver_options := demo_options\<lparr>solveVertDiffusion := True\<rparr>\<rparr>"

section \<open>Properties\<close>

subsection \<open>Stage weights\<close>

lemma make_stage_w_canonical:
  "make_stage_w [1, 1 / 4, 2 / 3] [0, 1 / 4, 1 / 3] = [1, 3 / 4, 1 / 3]"
  by (simp add: make_stage_w_def upt_rec)

text \<open>
  Claim C3, as the code has it: the constructors of the 3-stage SSP recipes compute, from
  \<open>dt_frac = [1, 1/4, 2/3]\<close> and \<open>start_frac = [0, 1/4, 1/3]\<close>, the stage weights
  \<open>[1, 3/4, 1/3]\<close>, that is approximately \<open>[1.0, 0.75, 0.3333]\<close>.
\<close>

theorem stage_w_values:
  "stage_w (coupledSSPRKSync_init sv) = [1, 3 / 4, 1 / 3]
   \<and> stage_w (coupledSSPRKSemiImplicit_init sv) = [1, 3 / 4, 1 / 3]
   \<and> approx4 (stage_w (coupledSSPRKSync_init sv) ! 0) 1
   \<and> approx4 (stage_w (coupledSSPRKSync_init sv) ! 1) (75 / 100)
   \<and> approx4 (stage_w (coupledSSPRKSync_init sv) ! 2) (3333 / 10000)"
  by (simp add: coupledSSPRKSync_init_def coupledSSPRKSemiImplicit_init_def
      make_stage_w_canonical approx4_def Let_def)

text \<open>
  The values \<open>[1.0, 0.1875, 0.5556]\<close> are not the weights that the constructor computes:
  the second weight is \<open>3/4\<close> and the third is \<open>1/3\<close>.
\<close>

theorem stage_w_spec_values_counterexample:
  "\<not> (approx4 (stage_w (coupledSSPRKSync_init demo_solver) ! 0) 1
      \<and> approx4 (stage_w (coupledSSPRKSync_init demo_solver) ! 1) (1875 / 10000)
      \<and> approx4 (stage_w (coupledSSPRKSync_init demo_solver) ! 2) (5556 / 10000))"
  by (simp add: coupledSSPRKSync_init_def make_stage_w_canonical approx4_def Let_def)

text \<open>
  Claim C4: in both 3-stage SSP constructors the tables are \<open>dt_frac = [1, 1/4, 2/3]\<close> and
  \<open>start_frac = [0, 1/4, 1/3]\<close>, the first weight is \<open>1 - start_frac[0]\<close>, and for every
  later stage \<open>k\<close> the weight is \<open>(start_frac[k-1] + dt_frac[k-1]) * (1 - start_frac[k])\<close>.
\<close>

theorem stage_w_recurrence:
  assumes "obj = coupledSSPRKSync_init sv \<or> obj = coupledSSPRKSemiImplicit_init sv"
  shows "dt_frac obj = [1, 1 / 4, 2 / 3] \<and> start_frac obj = [0, 1 / 4, 1 / 3]
     \<and> length (stage_w obj) = 3
     \<and> stage_w obj ! 0 = 1 - start_frac obj ! 0
     \<and> (\<forall>k. 0 < k \<and> k < 3 \<longrightarrow>
          stage_w obj ! k = (start_frac obj ! (k - 1) + dt_frac obj ! (k - 1)) * (1 - start_frac obj ! k))"
proof -
  have vals: "dt_frac obj = [1, 1 / 4, 2 / 3]" "start_frac obj = [0, 1 / 4, 1 / 3]"
    "stage_w obj = [1, 3 / 4, 1 / 3]"
    using assms
    by (auto simp: coupledSSPRKSync_init_def coupledSSPRKSemiImplicit_init_def
        make_stage_w_canonical Let_def)
  have rec: "stage_w obj ! k = (start_frac obj ! (k - 1) + dt_frac obj ! (k - 1)) * (1 - start_frac obj ! k)"
    if "0 < k" "k < 3" for k
  proof -
    from that have "k = 1 \<or> k = 2" by arith
    then show ?thesis by (auto simp: vals)
  qed
  show ?thesis using rec by (simp add: vals)
qed

theorem stage_w_recurrence_witness:
  "(0::nat) < 2 \<and> (2::nat) < 3
   \<and> stage_w (coupledSSPRKSemiImplicit_init demo_solver) ! 2
       = (start_frac (coupledSSPRKSemiImplicit_init demo_solver) ! (2 - 1)
          + dt_frac (coupledSSPRKSemiImplicit_init demo_solver) ! (2 - 1))
         * (1 - start_frac (coupledSSPRKSemiImplicit_init demo_solver) ! 2)
   \<and> stage_w (coupledSSPRKSemiImplicit_init demo_solver) ! 2 = 1 / 3"
proof -
  have "coupledSSPRKSemiImplicit_init demo_solver = coupledSSPRKSync_init demo_solver
      \<or> coupledSSPRKSemiImplicit_init demo_solver = coupledSSPRKSemiImplicit_init demo_solver"
    by simp
  from stage_w_recurrence [OF this]
  have r: "\<forall>k. 0 < k \<and> k < 3 \<longrightarrow>
      stage_w (coupledSSPRKSemiImplicit_init demo_solver) ! k
        = (start_frac (coupledSSPRKSemiImplicit_init demo_solver) ! (k - 1)
           + dt_frac (coupledSSPRKSemiImplicit_init demo_solver) ! (k - 1))
          * (1 - start_frac (coupledSSPRKSemiImplicit_init demo_solver) ! k)"
    and d: "dt_frac (coupledSSPRKSemiImplicit_init demo_solver) = [1, 1 / 4, 2 / 3]"
    and st: "start_frac (coupledSSPRKSemiImplicit_init demo_solver) = [0, 1 / 4, 1 / 3]"
    by blast+
  have two: "(0::nat) < 2 \<and> (2::nat) < 3" by simp
  from r two have e: "stage_w (coupledSSPRKSemiImplicit_init demo_solver) ! 2
        = (start_frac (coupledSSPRKSemiImplicit_init demo_solver) ! (2 - 1)
           + dt_frac (coupledSSPRKSemiImplicit_init demo_solver) ! (2 - 1))
          * (1 - start_frac (coupledSSPRKSemiImplicit_init demo_solver) ! 2)"
    by blast
  have "stage_w (coupledSSPRKSemiImplicit_init demo_solver) ! 2 = 1 / 3"
    unfolding e by (simp add: d st)
  with e two show ?thesis by blast
qed

subsection \<open>Sub-cycle counts\<close>

lemma ceil_div_bounds:
  fixes x d :: rat
  assumes "0 < x" "0 < d"
  shows "of_int \<lceil>x / d\<rceil> * (x / of_int \<lceil>x / d\<rceil>) = x"
    and "x / of_int \<lceil>x / d\<rceil> \<le> d"
proof -
  define m where "m = \<lceil>x / d\<rceil>"
  have q: "0 < x / d" using assms by simp
  then have "0 < m" unfolding m_def by simp
  then have m: "(0::rat) < of_int m" by simp
  have e: "of_int m * (x / of_int m) = x" using m by simp
  have "x / d \<le> of_int m" unfolding m_def by (rule le_of_int_ceiling)
  then have "x \<le> of_int m * d"
    using assms(2) by (simp add: pos_divide_le_eq)
  then have l: "x / of_int m \<le> d"
    using m by (simp add: pos_divide_le_eq mult.commute)
  show "of_int \<lceil>x / d\<rceil> * (x / of_int \<lceil>x / d\<rceil>) = x"
    using e unfolding m_def .
  show "x / of_int \<lceil>x / d\<rceil> \<le> d"
    using l unfolding m_def .
qed

lemma ceiling_sample:
  "\<lceil>10 / 3 :: rat\<rceil> = 4" "\<lceil>5 / 6 :: rat\<rceil> = 1" "\<lceil>20 / 9 :: rat\<rceil> = 3"
  by (rule ceiling_unique; simp)+

lemma substep_loop_ok:
  assumes "0 < solver_dt (solver s)" "0 < solver_dt_2d (solver s)" "\<forall>f\<in>set fs. 0 < f"
  shows "substep_loop fs s = Inr (s\<lparr>
      self_M := self_M s @ map (\<lambda>f. \<lceil>f * solver_dt (solver s) / solver_dt_2d (solver s)\<rceil>) fs,
      self_dt_2d := self_dt_2d s @ map (\<lambda>f. f * solver_dt (solver s) /
          of_int \<lceil>f * solver_dt (solver s) / solver_dt_2d (solver s)\<rceil>) fs\<rparr>)"
  using assms
proof (induction fs arbitrary: s)
  case Nil
  then show ?case by simp
next
  case (Cons f fs)
  let ?m = "\<lceil>f * solver_dt (solver s) / solver_dt_2d (solver s)\<rceil>"
  have "0 < f * solver_dt (solver s) / solver_dt_2d (solver s)"
    using Cons.prems by simp
  then have "0 < ?m" by simp
  then have m: "?m \<noteq> 0" by linarith
  have pos: "0 < solver_dt (solver s) \<and> 0 < solver_dt_2d (solver s) \<and> (\<forall>f\<in>set fs. 0 < f)"
    using Cons.prems by simp
  have d: "solver_dt_2d (solver s) \<noteq> 0" using Cons.prems by simp
  show ?case
    by (simp only: substep_loop.simps d m if_False Let_def) (simp add: Cons.IH pos)
qed

lemma init_common_constructed:
  assumes "obj = coupledSSPRKSync_init sv \<or> obj = coupledSSPRKSemiImplicit_init sv"
  shows "init_common obj = Inr (obj\<lparr>trace :=
     [StepperInitialize TimeStepper2d, StepperInitialize TimeStepper_mom3d]
     @ (if solveSalt (solver_options sv) then [StepperInitialize TimeStepper_salt3d] else [])
     @ (if solveVertDiffusion (solver_options sv) then [StepperInitialize TimeStepper_vmom3d] else [])\<rparr>)"
  using assms
  by (auto simp: init_common_def coupledSSPRKSync_init_def coupledSSPRKSemiImplicit_init_def
      call_initialize_def lookup_stepper_def emit_def when_do_def opts_def Let_def)

lemma initialize_constructed:
  assumes obj: "obj = coupledSSPRKSync_init sv \<or> obj = coupledSSPRKSemiImplicit_init sv"
    and pos: "0 < solver_dt sv" "0 < solver_dt_2d sv"
  shows "initialize obj = Inr (obj\<lparr>
      initialized := True,
      self_M := map (\<lambda>f. \<lceil>f * solver_dt sv / solver_dt_2d sv\<rceil>) [1, 1 / 4, 2 / 3],
      self_dt_2d := map (\<lambda>f. f * solver_dt sv / of_int \<lceil>f * solver_dt sv / solver_dt_2d sv\<rceil>)
                      [1, 1 / 4, 2 / 3],
      trace := [StepperInitialize TimeStepper2d, StepperInitialize TimeStepper_mom3d]
        @ (if solveSalt (solver_options sv) then [StepperInitialize TimeStepper_salt3d] else [])
        @ (if solveVertDiffusion (solver_options sv) then [StepperInitialize TimeStepper_vmom3d] else [])\<rparr>)"
proof -
  let ?tr = "[StepperInitialize TimeStepper2d, StepperInitialize TimeStepper_mom3d]
     @ (if solveSalt (solver_options sv) then [StepperInitialize TimeStepper_salt3d] else [])
     @ (if solveVertDiffusion (solver_options sv) then [StepperInitialize TimeStepper_vmom3d] else [])"
  let ?s = "obj\<lparr>trace := ?tr, self_M := [], self_dt_2d := []\<rparr>"
  have facts: "solver obj = sv" "dt_frac obj = [1, 1 / 4, 2 / 3]"
    "recipe_of obj = SSPRKSync \<or> recipe_of obj = SSPRKSemiImplicit"
    using obj by (auto simp: coupledSSPRKSync_init_def coupledSSPRKSemiImplicit_init_def Let_def)
  have loop: "substep_loop (dt_frac ?s) ?s = Inr (?s\<lparr>
      self_M := self_M ?s @ map (\<lambda>f. \<lceil>f * solver_dt (solver ?s) / solver_dt_2d (solver ?s)\<rceil>) (dt_frac ?s),
      self_dt_2d := self_dt_2d ?s @ map (\<lambda>f. f * solver_dt (solver ?s) /
          of_int \<lceil>f * solver_dt (solver ?s) / solver_dt_2d (solver ?s)\<rceil>) (dt_frac ?s)\<rparr>)"
    by (rule substep_loop_ok) (simp_all add: facts pos)
  have "initialize obj = initialize_subcycling obj"
    using facts(3) by (auto simp: initialize_def)
  also have "\<dots> = Inr (obj\<lparr>
      initialized := True,
      self_M := map (\<lambda>f. \<lceil>f * solver_dt sv / solver_dt_2d sv\<rceil>) [1, 1 / 4, 2 / 3],
      self_dt_2d := map (\<lambda>f. f * solver_dt sv / of_int \<lceil>f * solver_dt sv / solver_dt_2d sv\<rceil>)
                      [1, 1 / 4, 2 / 3],
      trace := ?tr\<rparr>)"
    using loop
    by (simp add: initialize_subcycling_def init_common_constructed [OF obj] facts)
  finally show ?thesis .
qed



subsection \<open>The forward Euler stepper\<close>

text \<open>
  Claim C9: when the name \<^verbatim>\<open>dt\<close> is unbound, every call of \<^verbatim>\<open>ForwardEuler.advance\<close>, for
  any time and any forcing callback, raises \<^verbatim>\<open>NameError\<close> in the state in which it was
  called: the callback has not been called, and neither the lagged solution nor the time
  step constant nor any field has been changed.
\<close>

theorem ForwardEuler_advance_unbound_dt:
  "ForwardEuler_advance None solve t update_forcings s = Inl (NameError ''dt'', s)
   \<and> raised (ForwardEuler_advance None solve t update_forcings s) = Some (NameError ''dt'')
   \<and> final (ForwardEuler_advance None solve t update_forcings s) = s
   \<and> fe_forcing_calls (final (ForwardEuler_advance None solve t update_forcings s))
       = fe_forcing_calls s
   \<and> fe_solution_old (final (ForwardEuler_advance None solve t update_forcings s))
       = fe_solution_old s
   \<and> fe_dt_const (final (ForwardEuler_advance None solve t update_forcings s))
       = fe_dt_const s"
  by (simp add: ForwardEuler_advance_def raised_def final_def)

subsection \<open>Lax-Friedrichs stabilization of horizontal advection\<close>


subsection \<open>The dependency-update pipeline\<close>

lemma ext_simps [simp]:
  "ext s [] = s"
  "ext (ext s a) b = ext s (a @ b)"
  "trace (ext s a) = trace s @ a"
  "opts (ext s a) = opts s"
  "solver (ext s a) = solver s"
  "steppers (ext s a) = steppers s"
  "recipe_of (ext s a) = recipe_of s"
  "nStages (ext s a) = nStages s"
  "initialized (ext s a) = initialized s"
  "dt_frac (ext s a) = dt_frac s"
  "start_frac (ext s a) = start_frac s"
  "stage_w (ext s a) = stage_w s"
  "self_M (ext s a) = self_M s"
  "self_dt_2d (ext s a) = self_dt_2d s"
  by (simp_all add: ext_def opts_def)

lemma only_if_simps [simp]: "only_if True xs = xs" "only_if False xs = []"
  by (simp_all add: only_if_def)

lemma emit_ext: "emit e s = Inr (ext s [e])"
  by (simp add: emit_def ext_def)

lemma update3dElevation_ext: "update3dElevation s = Inr (ext s elevation_events)"
  by (simp add: update3dElevation_def emit_ext elevation_events_def)

lemma updateVerticalVelocity_ext: "updateVerticalVelocity s = Inr (ext s [ComputeVertVelocity])"
  by (simp add: updateVerticalVelocity_def emit_ext)

lemma updateMovingMesh_ext: "updateMovingMesh s = Inr (ext s (moving_mesh_events (opts s)))"
  by (simp add: updateMovingMesh_def when_do_def emit_ext moving_mesh_events_def)

lemma updateBottomFriction_ext:
  "updateBottomFriction s = Inr (ext s (bottom_friction_events (opts s)))"
  by (simp add: updateBottomFriction_def when_do_def emit_ext bottom_friction_events_def)

lemma update2DCoupling_ext: "update2DCoupling s = Inr (ext s (coupling_events (recipe_of s)))"
  by (cases "recipe_of s") (simp_all add: update2DCoupling_def emit_ext coupling_events_def)

lemma updateMeshVelocity_ext:
  "updateMeshVelocity s = Inr (ext s (mesh_velocity_events (opts s)))"
  by (simp add: updateMeshVelocity_def when_do_def emit_ext mesh_velocity_events_def)

lemma updateBaroclinicity_ext:
  "updateBaroclinicity s = Inr (ext s (baroclinicity_events (opts s)))"
  by (simp add: updateBaroclinicity_def when_do_def emit_ext baroclinicity_events_def)

lemma updateStabilizationParams_ext:
  "updateStabilizationParams s = Inr (ext s (stabilization_events (opts s)))"
  by (simp add: updateStabilizationParams_def when_do_def emit_ext stabilization_events_def)

lemma advance_at_module_t_eq:
  "advance_at_module_t g x s =
     (if x \<in> set (steppers s)
      then (case g of None \<Rightarrow> Inl (NameError ''t'', s)
            | Some t \<Rightarrow> Inr (ext s [StepperAdvance x t (solver_dt (solver s))]))
      else Inl (AttributeError (attr_name x), s))"
  by (simp add: advance_at_module_t_def lookup_stepper_def emit_ext split: option.splits)

lemma updateTurbulence_off: "\<not> useTurbulence (opts s) \<Longrightarrow> updateTurbulence g s = Inr s"
  by (simp add: updateTurbulence_def when_do_def)

lemma updateTurbulence_unbound:
  "useTurbulence (opts s) \<Longrightarrow>
   updateTurbulence None s = Inl (if TimeStepper_psi3d \<in> set (steppers s) then NameError ''t''
                                  else AttributeError ''timeStepper_psi3d'', ext s [GlsPreprocess])"
  by (simp add: updateTurbulence_def when_do_def emit_ext advance_at_module_t_eq attr_name_def)

lemma updateTurbulence_bound:
  "useTurbulence (opts s) \<Longrightarrow> TimeStepper_psi3d \<in> set (steppers s) \<Longrightarrow>
   TimeStepper_tke3d \<in> set (steppers s) \<Longrightarrow>
   updateTurbulence (Some t) s = Inr (ext s (turbulence_update_events (opts s) t (solver_dt (solver s))))"
  by (simp add: updateTurbulence_def when_do_def emit_ext advance_at_module_t_eq
      turbulence_update_events_def)


lemma when_do_simps [simp]: "when_do True f s = f s" "when_do False f s = Inr s"
  by (simp_all add: when_do_def)

lemma when_do_updateMovingMesh:
  "when_do b updateMovingMesh s = Inr (ext s (only_if b (moving_mesh_events (opts s))))"
  by (cases b) (simp_all add: updateMovingMesh_ext)

lemma when_do_update2DCoupling:
  "when_do b update2DCoupling s = Inr (ext s (only_if b (coupling_events (recipe_of s))))"
  by (cases b) (simp_all add: update2DCoupling_ext)

lemma when_do_updateStabilizationParams:
  "when_do b updateStabilizationParams s = Inr (ext s (only_if b (stabilization_events (opts s))))"
  by (cases b) (simp_all add: updateStabilizationParams_ext)

lemmas pipeline_step_simps =
  emit_ext update3dElevation_ext when_do_updateMovingMesh when_do_update2DCoupling
  updateVerticalVelocity_ext updateMeshVelocity_ext updateBottomFriction_ext
  updateBaroclinicity_ext when_do_updateStabilizationParams

lemma pipeline_vdiff_raises:
  assumes "doVertDiffusion fl" "solveVertDiffusion (opts s)"
  shows "updateAllDependencies None fl s =
     Inl (if TimeStepper_vmom3d \<in> set (steppers s) then NameError ''t''
          else AttributeError ''timeStepper_vmom3d'',
          ext s (Enter_updateAllDependencies fl # elevation_events
                 @ only_if (doALEUpdate fl) (moving_mesh_events (opts s))))"
  using assms
  by (simp add: updateAllDependencies_def pipeline_step_simps advance_at_module_t_eq attr_name_def)

lemma pipeline_turbulence_raises:
  assumes "\<not> (doVertDiffusion fl \<and> solveVertDiffusion (opts s))"
    "doTurbulence fl" "useTurbulence (opts s)"
  shows "updateAllDependencies None fl s =
     Inl (if TimeStepper_psi3d \<in> set (steppers s) then NameError ''t''
          else AttributeError ''timeStepper_psi3d'',
          ext s (Enter_updateAllDependencies fl # elevation_events
                 @ only_if (doALEUpdate fl) (moving_mesh_events (opts s))
                 @ only_if (do2DCoupling fl) (coupling_events (recipe_of s))
                 @ [ComputeVertVelocity, GlsPreprocess]))"
proof -
  have vd: "when_do (doVertDiffusion fl \<and> solveVertDiffusion (opts s))
               (advance_at_module_t None TimeStepper_vmom3d) s' = Inr s'" for s'
    using assms(1) by (auto simp: when_do_def)
  show ?thesis
    using assms(2,3)
    by (simp add: updateAllDependencies_def pipeline_step_simps vd updateTurbulence_unbound)
qed

lemma pipeline_quiet_returns:
  assumes "\<not> (doVertDiffusion fl \<and> solveVertDiffusion (opts s))"
    "\<not> (doTurbulence fl \<and> useTurbulence (opts s))"
  shows "updateAllDependencies g fl s =
     Inr (ext s (Enter_updateAllDependencies fl
                 # pipeline_events (recipe_of s) (opts s) fl [] []))"
proof -
  have turb: "when_do (doTurbulence fl) (updateTurbulence g) s' = Inr s'" if "opts s' = opts s" for s'
    using assms(2) that by (cases "doTurbulence fl") (simp_all add: updateTurbulence_off)
  have vd: "when_do (doVertDiffusion fl \<and> solveVertDiffusion (opts s))
               (advance_at_module_t g TimeStepper_vmom3d) s' = Inr s'" for s'
    using assms(1) by (auto simp: when_do_def)
  show ?thesis
    by (simp add: updateAllDependencies_def pipeline_step_simps vd turb pipeline_events_def)
qed

lemma pipeline_bound_returns:
  assumes "doVertDiffusion fl \<and> solveVertDiffusion (opts s) \<longrightarrow> TimeStepper_vmom3d \<in> set (steppers s)"
    "doTurbulence fl \<and> useTurbulence (opts s) \<longrightarrow>
       TimeStepper_psi3d \<in> set (steppers s) \<and> TimeStepper_tke3d \<in> set (steppers s)"
  shows "updateAllDependencies (Some t) fl s =
     Inr (ext s (Enter_updateAllDependencies fl
                 # pipeline_events (recipe_of s) (opts s) fl
                     (only_if (doVertDiffusion fl \<and> solveVertDiffusion (opts s))
                        [StepperAdvance TimeStepper_vmom3d t (solver_dt (solver s))])
                     (only_if (doTurbulence fl \<and> useTurbulence (opts s))
                        (turbulence_update_events (opts s) t (solver_dt (solver s))))))"
proof -
  have turb: "when_do (doTurbulence fl) (updateTurbulence (Some t)) s' =
      Inr (ext s' (only_if (doTurbulence fl \<and> useTurbulence (opts s))
                        (turbulence_update_events (opts s) t (solver_dt (solver s)))))"
    if "opts s' = opts s" "steppers s' = steppers s" "solver s' = solver s" for s'
    using assms(2) that
    by (cases "doTurbulence fl"; cases "useTurbulence (opts s)")
       (simp_all add: updateTurbulence_off updateTurbulence_bound)
  have vd: "when_do (doVertDiffusion fl \<and> solveVertDiffusion (opts s))
               (advance_at_module_t (Some t) TimeStepper_vmom3d) s' =
      Inr (ext s' (only_if (doVertDiffusion fl \<and> solveVertDiffusion (opts s))
                        [StepperAdvance TimeStepper_vmom3d t (solver_dt (solver s))]))"
    if "steppers s' = steppers s" "solver s' = solver s" for s'
    using assms(1) that
    by (auto simp: when_do_def only_if_def advance_at_module_t_eq)
  show ?thesis
    by (simp add: updateAllDependencies_def pipeline_step_simps turb vd pipeline_events_def)
qed




text \<open>
  Claim C2 does not hold of the code. With vertical diffusion configured and the flags of
  a last stage, the pipeline projects the elevation and then raises \<^verbatim>\<open>NameError\<close> at the
  vertical diffusion step: neither the vertical velocity nor any later step is computed.
\<close>

theorem pipeline_aborts_at_vertical_diffusion:
  "updateAllDependencies None
       \<lparr>do2DCoupling = True, doVertDiffusion = True, doALEUpdate = True,
        doStabParams = True, doTurbulence = True\<rparr>
       (coupledSSPRKSync_init
          (demo_solver\<lparr>solver_options := demo_options\<lparr>solveVertDiffusion := True\<rparr>\<rparr>))
     = Inl (NameError ''t'',
         (coupledSSPRKSync_init
            (demo_solver\<lparr>solver_options := demo_options\<lparr>solveVertDiffusion := True\<rparr>\<rparr>))
         \<lparr>trace :=
            [Enter_updateAllDependencies
               \<lparr>do2DCoupling = True, doVertDiffusion = True, doALEUpdate = True,
                doStabParams = True, doTurbulence = True\<rparr>,
             Copy2dFieldTo3d Elev2d Elev3d, Project_elev3d_to_CG]\<rparr>)"
proof -
  let ?obj = "coupledSSPRKSync_init
          (demo_solver\<lparr>solver_options := demo_options\<lparr>solveVertDiffusion := True\<rparr>\<rparr>)"
  let ?fl = "\<lparr>do2DCoupling = True, doVertDiffusion = True, doALEUpdate = True,
        doStabParams = True, doTurbulence = True\<rparr>"
  have o: "solveVertDiffusion (opts ?obj)" "\<not> useALEMovingMesh (opts ?obj)"
    "TimeStepper_vmom3d \<in> set (steppers ?obj)" "trace ?obj = []"
    by (simp_all add: coupledSSPRKSync_init_def opts_def demo_solver_def demo_options_def Let_def)
  have "updateAllDependencies None ?fl ?obj = Inl (NameError ''t'',
      ext ?obj (Enter_updateAllDependencies ?fl # elevation_events
                 @ only_if (doALEUpdate ?fl) (moving_mesh_events (opts ?obj))))"
    using pipeline_vdiff_raises [of ?fl ?obj] o by simp
  then show ?thesis
    using o by (simp add: ext_def elevation_events_def moving_mesh_events_def)
qed

subsection \<open>The stages of the SSP-IMEX recipe\<close>

lemma pipeline_calls_append [simp]:
  "pipeline_calls (a @ b) = pipeline_calls a @ pipeline_calls b"
  by (induction a rule: pipeline_calls.induct) simp_all

lemma frame_refl [simp]: "frame s s"
  by (simp add: frame_def)

lemma frame_trans: "frame a b \<Longrightarrow> frame b c \<Longrightarrow> frame a c"
  by (simp add: frame_def)

lemma frame_ext: "pipeline_calls evs = [] \<Longrightarrow> frame s (ext s evs)"
  by (simp add: frame_def)

lemma final_simps [simp]: "final (Inr s) = s" "final (Inl (e, s)) = s"
  by (simp_all add: final_def)

lemma raised_simps [simp]: "raised (Inr s) = None" "raised (Inl (e, s)) = Some e"
  by (simp_all add: raised_def)

lemma quietI: "(\<And>s. frame s (final (f s))) \<Longrightarrow> quiet f"
  by (simp add: quiet_def)

lemma quietD: "quiet f \<Longrightarrow> frame s (final (f s))"
  by (simp add: quiet_def)

lemma quiet_emit: "pipeline_calls [e] = [] \<Longrightarrow> quiet (emit e)"
  by (rule quietI) (simp add: emit_ext frame_ext)

lemma quiet_lookup: "quiet (lookup_stepper x)"
  by (rule quietI) (simp add: lookup_stepper_def)

lemma quiet_when_do: "quiet f \<Longrightarrow> quiet (when_do b f)"
  by (cases b) (auto simp: quiet_def fun_eq_iff when_do_def)

lemma quiet_steps: "(\<And>f. f \<in> set fs \<Longrightarrow> quiet f) \<Longrightarrow> quiet (steps fs)"
proof (induction fs)
  case Nil
  show ?case by (rule quietI) simp
next
  case (Cons f fs)
  have qf: "quiet f" and qs: "quiet (steps fs)"
    using Cons by simp_all
  show ?case
  proof (rule quietI)
    fix s
    show "frame s (final (steps (f # fs) s))"
    proof (cases "f s")
      case (Inl p)
      then show ?thesis using quietD [OF qf, of s] by simp
    next
      case (Inr s1)
      then show ?thesis
        using quietD [OF qf, of s] quietD [OF qs, of s1] by (auto intro: frame_trans)
    qed
  qed
qed

lemma quiet_call_solveStage: "quiet (call_solveStage x k t d)"
  unfolding call_solveStage_def
  by (rule quiet_steps) (auto intro: quiet_lookup quiet_emit)

lemma quiet_call_initialize: "quiet (call_initialize x)"
  unfolding call_initialize_def
  by (rule quiet_steps) (auto intro: quiet_lookup quiet_emit)

lemma quiet_set_initialized: "quiet (\<lambda>s. Inr (s\<lparr>initialized := True\<rparr>))"
  by (rule quietI) (simp add: frame_def)

lemma quiet_init_common: "quiet init_common"
proof (rule quietI)
  fix s
  have "quiet (steps
     [call_initialize TimeStepper2d,
      call_initialize TimeStepper_mom3d,
      when_do (solveSalt (opts s)) (call_initialize TimeStepper_salt3d),
      when_do (solveVertDiffusion (opts s)) (call_initialize TimeStepper_vmom3d)])"
    by (rule quiet_steps) (auto intro: quiet_call_initialize quiet_when_do)
  then show "frame s (final (init_common s))"
    unfolding init_common_def by (rule quietD)
qed

lemma quiet_initialize_plain: "quiet initialize_plain"
proof (rule quietI)
  fix s
  have "quiet (steps [init_common, (\<lambda>s. Inr (s\<lparr>initialized := True\<rparr>))])"
    by (rule quiet_steps) (auto intro: quiet_init_common quiet_set_initialized)
  then show "frame s (final (initialize_plain s))"
    unfolding initialize_plain_def by (rule quietD)
qed

lemma quiet_ensure_initialized: "quiet ini \<Longrightarrow> quiet (ensure_initialized ini)"
  by (auto simp: quiet_def ensure_initialized_def)

lemma steps_append:
  "steps (fs @ gs) s = (case steps fs s of Inl e \<Rightarrow> Inl e | Inr s' \<Rightarrow> steps gs s')"
  by (induction fs arbitrary: s) (auto split: sum.splits)

lemma no_calls_pipeline_events [simp]:
  "pipeline_calls (pipeline_events r cfg fl [] []) = []"
  by (cases r)
     (simp_all add: pipeline_events_def elevation_events_def moving_mesh_events_def
        coupling_events_def mesh_velocity_events_def bottom_friction_events_def
        baroclinicity_events_def stabilization_events_def only_if_def)

lemma last_stage_iff: "(int k = int n - 1) = (Suc k = n)"
  by auto

lemma steps_single: "steps [f] s = f s"
  by (cases "f s") simp_all

lemma quiet_limiters: "quiet (steps [emit (LimiterApply a), emit (LimiterApply b)])"
  by (rule quiet_steps) (auto intro: quiet_emit)

lemma quiet_imex_salt:
  "quiet (steps [call_solveStage TimeStepper_salt3d k t d, when_do b (emit (LimiterApply Salt3d))])"
  by (rule quiet_steps) (auto intro!: quiet_call_solveStage quiet_when_do quiet_emit)

lemma quiet_imex_turbadv:
  "quiet (steps [call_solveStage TimeStepper_tkeAdvEq k t d,
                 call_solveStage TimeStepper_psiAdvEq k t d,
                 when_do b (steps [emit (LimiterApply Tke3d), emit (LimiterApply Psi3d)])])"
  by (rule quiet_steps) (auto intro: quiet_call_solveStage quiet_when_do quiet_limiters)

lemma quiet_imex_turb:
  "quiet (steps [call_solveStage TimeStepper_psi3d k t d,
                 call_solveStage TimeStepper_tke3d k t d,
                 when_do b (steps [emit (LimiterApply Tke3d), emit (LimiterApply Psi3d)]),
                 emit GlsPostprocess,
                 emit GlsPreprocess])"
  by (rule quiet_steps)
     (auto intro: quiet_call_solveStage quiet_when_do quiet_limiters quiet_emit)

lemma quiet_imex_pre: "quiet (steps (imex_pre t k s))"
  unfolding imex_pre_def
  by (rule quiet_steps)
     (auto intro: quiet_when_do quiet_call_solveStage quiet_imex_salt quiet_imex_turbadv
        quiet_imex_turb)

lemma imex_stage_unfold:
  "imex_stage g t k s =
     (case steps (imex_pre t k s) s of
        Inl e \<Rightarrow> Inl e
      | Inr s1 \<Rightarrow> updateAllDependencies g (imex_flags (nStages s) k) s1)"
proof -
  have "imex_stage g t k s =
      steps (imex_pre t k s @ [updateAllDependencies g (imex_flags (nStages s) k)]) s"
    by (simp only: imex_stage_def Let_def last_stage_iff imex_flags_def imex_pre_def append.simps)
  then show ?thesis
    by (simp only: steps_append steps_single)
qed

lemma imex_stage_calls:
  "case imex_stage g t k s of
     Inl (e, s') \<Rightarrow> frame s s'
   | Inr s' \<Rightarrow> pipeline_calls (trace s') = pipeline_calls (trace s) @ [imex_flags (nStages s) k]
        \<and> nStages s' = nStages s"
proof (cases "steps (imex_pre t k s) s")
  case (Inl p)
  obtain e s1 where p: "p = (e, s1)" by (cases p)
  have "frame s s1" using quietD [OF quiet_imex_pre, of s t k s] Inl p by simp
  then show ?thesis by (simp add: imex_stage_unfold Inl p)
next
  case (Inr s1)
  have f: "frame s s1" using quietD [OF quiet_imex_pre, of s t k s] Inr by simp
  have "updateAllDependencies g (imex_flags (nStages s) k) s1 =
       Inr (ext s1 (Enter_updateAllDependencies (imex_flags (nStages s) k)
                 # pipeline_events (recipe_of s1) (opts s1) (imex_flags (nStages s) k) [] []))"
    by (rule pipeline_quiet_returns) (simp_all add: imex_flags_def)
  then show ?thesis
    using f by (simp add: imex_stage_unfold Inr frame_def)
qed

lemma imex_loop_calls:
  "\<exists>m\<le>length ks.
     pipeline_calls (trace (final (for_each ks (imex_stage g t) s)))
       = pipeline_calls (trace s) @ map (imex_flags (nStages s)) (take m ks)
     \<and> nStages (final (for_each ks (imex_stage g t) s)) = nStages s
     \<and> (raised (for_each ks (imex_stage g t) s) = None \<longrightarrow> m = length ks)"
proof (induction ks arbitrary: s)
  case Nil
  show ?case by simp
next
  case (Cons k ks)
  show ?case
  proof (cases "imex_stage g t k s")
    case (Inl p)
    obtain e s1 where p: "p = (e, s1)" by (cases p)
    have fr: "frame s s1"
      using imex_stage_calls [where g = g and t = t and k = k and s = s] by (simp add: Inl p)
    have r: "for_each (k # ks) (imex_stage g t) s = Inl (e, s1)"
      by (simp add: Inl p)
    show ?thesis
    proof (intro exI [of _ 0] conjI)
      show "0 \<le> length (k # ks)" by simp
      show "pipeline_calls (trace (final (for_each (k # ks) (imex_stage g t) s)))
        = pipeline_calls (trace s) @ map (imex_flags (nStages s)) (take 0 (k # ks))"
        using fr unfolding r by (simp add: frame_def)
      show "nStages (final (for_each (k # ks) (imex_stage g t) s)) = nStages s"
        using fr unfolding r by (simp add: frame_def)
      show "raised (for_each (k # ks) (imex_stage g t) s) = None \<longrightarrow> 0 = length (k # ks)"
        unfolding r by simp
    qed
  next
    case (Inr s1)
    have s1: "pipeline_calls (trace s1) = pipeline_calls (trace s) @ [imex_flags (nStages s) k]"
      "nStages s1 = nStages s"
      using imex_stage_calls [where g = g and t = t and k = k and s = s] by (simp_all add: Inr)
    have r: "for_each (k # ks) (imex_stage g t) s = for_each ks (imex_stage g t) s1"
      by (simp add: Inr)
    have "\<exists>m\<le>length ks.
       pipeline_calls (trace (final (for_each ks (imex_stage g t) s1)))
         = pipeline_calls (trace s1) @ map (imex_flags (nStages s1)) (take m ks)
       \<and> nStages (final (for_each ks (imex_stage g t) s1)) = nStages s1
       \<and> (raised (for_each ks (imex_stage g t) s1) = None \<longrightarrow> m = length ks)"
      by (rule Cons.IH)
    then obtain m where m: "m \<le> length ks"
      and calls: "pipeline_calls (trace (final (for_each ks (imex_stage g t) s1)))
         = pipeline_calls (trace s1) @ map (imex_flags (nStages s1)) (take m ks)"
      and n: "nStages (final (for_each ks (imex_stage g t) s1)) = nStages s1"
      and fin: "raised (for_each ks (imex_stage g t) s1) = None \<longrightarrow> m = length ks"
      by (elim exE conjE)
    show ?thesis
    proof (intro exI [of _ "Suc m"] conjI)
      show "Suc m \<le> length (k # ks)" using m by simp
      show "pipeline_calls (trace (final (for_each (k # ks) (imex_stage g t) s)))
        = pipeline_calls (trace s) @ map (imex_flags (nStages s)) (take (Suc m) (k # ks))"
        unfolding r calls s1 by simp
      show "nStages (final (for_each (k # ks) (imex_stage g t) s)) = nStages s"
        unfolding r n s1 ..
      show "raised (for_each (k # ks) (imex_stage g t) s) = None \<longrightarrow> Suc m = length (k # ks)"
        unfolding r using fin by simp
    qed
  qed
qed

lemma imex_advance_calls:
  "\<exists>m\<le>nStages s.
     pipeline_calls (trace (final (coupledSSPIMEX_advance g t s)))
       = pipeline_calls (trace s) @ map (imex_flags (nStages s)) [0 ..< m]
     \<and> (raised (coupledSSPIMEX_advance g t s) = None \<longrightarrow> m = nStages s)"
proof (cases "ensure_initialized initialize_plain s")
  case (Inl p)
  obtain e s1 where p: "p = (e, s1)" by (cases p)
  have fr: "frame s s1"
    using quietD [OF quiet_ensure_initialized [OF quiet_initialize_plain], of s]
    by (simp add: Inl p)
  have r: "coupledSSPIMEX_advance g t s = Inl (e, s1)"
    by (simp add: coupledSSPIMEX_advance_def Inl p)
  show ?thesis
  proof (intro exI [of _ 0] conjI)
    show "0 \<le> nStages s" by simp
    show "pipeline_calls (trace (final (coupledSSPIMEX_advance g t s)))
       = pipeline_calls (trace s) @ map (imex_flags (nStages s)) [0 ..< 0]"
      using fr unfolding r by (simp add: frame_def)
    show "raised (coupledSSPIMEX_advance g t s) = None \<longrightarrow> 0 = nStages s"
      unfolding r by simp
  qed
next
  case (Inr s1)
  have fr: "frame s s1"
    using quietD [OF quiet_ensure_initialized [OF quiet_initialize_plain], of s]
    by (simp add: Inr)
  then have n1: "nStages s1 = nStages s" and c1: "pipeline_calls (trace s1) = pipeline_calls (trace s)"
    by (simp_all add: frame_def)
  have r: "coupledSSPIMEX_advance g t s = for_each [0 ..< nStages s] (imex_stage g t) s1"
    by (simp add: coupledSSPIMEX_advance_def Inr n1 split: sum.splits)
  have "\<exists>m\<le>length [0 ..< nStages s].
     pipeline_calls (trace (final (for_each [0 ..< nStages s] (imex_stage g t) s1)))
       = pipeline_calls (trace s1) @ map (imex_flags (nStages s1)) (take m [0 ..< nStages s])
     \<and> nStages (final (for_each [0 ..< nStages s] (imex_stage g t) s1)) = nStages s1
     \<and> (raised (for_each [0 ..< nStages s] (imex_stage g t) s1) = None
          \<longrightarrow> m = length [0 ..< nStages s])"
    by (rule imex_loop_calls)
  then obtain m where m: "m \<le> length [0 ..< nStages s]"
    and calls: "pipeline_calls (trace (final (for_each [0 ..< nStages s] (imex_stage g t) s1)))
       = pipeline_calls (trace s1) @ map (imex_flags (nStages s1)) (take m [0 ..< nStages s])"
    and fin: "raised (for_each [0 ..< nStages s] (imex_stage g t) s1) = None
          \<longrightarrow> m = length [0 ..< nStages s]"
    by (elim exE conjE)
  have tk: "take m [0 ..< nStages s] = [0 ..< m]"
    using m by (simp add: take_upt)
  show ?thesis
  proof (intro exI [of _ m] conjI)
    show "m \<le> nStages s" using m by simp
    show "pipeline_calls (trace (final (coupledSSPIMEX_advance g t s)))
       = pipeline_calls (trace s) @ map (imex_flags (nStages s)) [0 ..< m]"
      unfolding r calls tk n1 c1 ..
    show "raised (coupledSSPIMEX_advance g t s) = None \<longrightarrow> m = nStages s"
      unfolding r using fin by simp
  qed
qed

lemma imex_ready_ext [simp]: "imex_ready (ext s evs) = imex_ready s"
  by (simp add: imex_ready_def)

lemma imex_ready_initialized [simp]: "imex_ready (s\<lparr>initialized := b\<rparr>) = imex_ready s"
  by (simp add: imex_ready_def opts_def)

lemma call_solveStage_ext:
  "x \<in> set (steppers s) \<Longrightarrow>
   call_solveStage x k t d s = Inr (ext s [StepperSolveStage x k t d])"
  by (simp add: call_solveStage_def lookup_stepper_def emit_ext)

lemma call_initialize_ext:
  "x \<in> set (steppers s) \<Longrightarrow> call_initialize x s = Inr (ext s [StepperInitialize x])"
  by (simp add: call_initialize_def lookup_stepper_def emit_ext)

lemma imex_salt_block:
  assumes "b \<longrightarrow> TimeStepper_salt3d \<in> set (steppers s)"
  shows "when_do b (steps [call_solveStage TimeStepper_salt3d k t d,
                           when_do c (emit (LimiterApply Salt3d))]) s
         = Inr (ext s (only_if b (StepperSolveStage TimeStepper_salt3d k t d
                                  # only_if c [LimiterApply Salt3d])))"
  using assms by (cases b; cases c) (simp_all add: call_solveStage_ext emit_ext)

lemma imex_turbulence_block:
  assumes "b \<longrightarrow> TimeStepper_psi3d \<in> set (steppers s) \<and> TimeStepper_tke3d \<in> set (steppers s)"
  shows "when_do b (steps [call_solveStage TimeStepper_psi3d k t d,
                   call_solveStage TimeStepper_tke3d k t d,
                   when_do (useLimiterForTracers cfg)
                     (steps [emit (LimiterApply Tke3d), emit (LimiterApply Psi3d)]),
                   emit GlsPostprocess,
                   emit GlsPreprocess]) s
         = Inr (ext s (only_if b (imex_turbulence_stage_events cfg k t d)))"
  using assms
  by (cases b; cases "useLimiterForTracers cfg")
     (simp_all add: call_solveStage_ext emit_ext imex_turbulence_stage_events_def)

lemma imex_pre_ext:
  assumes "imex_ready s"
  shows "steps (imex_pre t k s) s = Inr (ext s
     (only_if (solveSalt (opts s))
       (StepperSolveStage TimeStepper_salt3d k t (solver_dt (solver s))
        # only_if (useLimiterForTracers (opts s) \<and> Suc k = nStages s) [LimiterApply Salt3d])
     @ [StepperSolveStage TimeStepper_mom3d k t (solver_dt (solver s)),
        StepperSolveStage TimeStepper2d k t (solver_dt (solver s))]
     @ only_if (useTurbulence (opts s))
         (imex_turbulence_stage_events (opts s) k t (solver_dt (solver s)))))"
proof -
  have a: "TimeStepper2d \<in> set (steppers s)" "TimeStepper_mom3d \<in> set (steppers s)"
    "solveSalt (opts s) \<longrightarrow> TimeStepper_salt3d \<in> set (steppers s)"
    "useTurbulence (opts s) \<longrightarrow>
           TimeStepper_psi3d \<in> set (steppers s) \<and> TimeStepper_tke3d \<in> set (steppers s)"
    "\<not> useTurbulenceAdvection (opts s)"
    using assms by (simp_all add: imex_ready_def)
  show ?thesis
    unfolding imex_pre_def
    by (simp add: a imex_salt_block imex_turbulence_block call_solveStage_ext)
qed

lemma imex_stage_ext:
  assumes "imex_ready s"
  shows "imex_stage g t k s = Inr (ext s
     (imex_stage_events (recipe_of s) (opts s) (nStages s) k t (solver_dt (solver s))))"
proof -
  have "updateAllDependencies g (imex_flags (nStages s) k) s1 =
       Inr (ext s1 (Enter_updateAllDependencies (imex_flags (nStages s) k)
                 # pipeline_events (recipe_of s1) (opts s1) (imex_flags (nStages s) k) [] []))"
    for s1
    by (rule pipeline_quiet_returns) (simp_all add: imex_flags_def)
  then show ?thesis
    by (simp add: imex_stage_unfold imex_pre_ext [OF assms] imex_stage_events_def)
qed

lemma imex_loop_ext:
  assumes "imex_ready s"
  shows "for_each ks (imex_stage g t) s = Inr (ext s (concat (map
     (\<lambda>k. imex_stage_events (recipe_of s) (opts s) (nStages s) k t (solver_dt (solver s))) ks)))"
  using assms
proof (induction ks arbitrary: s)
  case Nil
  show ?case by simp
next
  case (Cons k ks)
  let ?s1 = "ext s (imex_stage_events (recipe_of s) (opts s) (nStages s) k t (solver_dt (solver s)))"
  have r: "imex_ready ?s1" using Cons.prems by simp
  show ?case
    by (simp add: imex_stage_ext [OF Cons.prems] Cons.IH [OF r])
qed

lemma ensure_initialized_plain_ext:
  assumes "imex_ready s"
  shows "ensure_initialized initialize_plain s =
     Inr (if initialized s then s
          else (ext s (init_plain_events (opts s)))\<lparr>initialized := True\<rparr>)"
proof -
  have a: "TimeStepper2d \<in> set (steppers s)" "TimeStepper_mom3d \<in> set (steppers s)"
    "solveSalt (opts s) \<longrightarrow> TimeStepper_salt3d \<in> set (steppers s)"
    "\<not> solveVertDiffusion (opts s)"
    using assms by (simp_all add: imex_ready_def)
  have salt: "when_do (solveSalt (opts s)) (call_initialize TimeStepper_salt3d) s1
      = Inr (ext s1 (only_if (solveSalt (opts s)) [StepperInitialize TimeStepper_salt3d]))"
    if "steppers s1 = steppers s" for s1
    using a(3) that by (cases "solveSalt (opts s)") (simp_all add: call_initialize_ext)
  have "init_common s = Inr (ext s (init_plain_events (opts s)))"
    by (simp add: init_common_def a call_initialize_ext salt init_plain_events_def)
  then show ?thesis
    by (simp add: ensure_initialized_def initialize_plain_def)
qed

lemma imex_advance_ext:
  assumes "imex_ready s"
  shows "\<exists>s'. coupledSSPIMEX_advance g t s = Inr s'
     \<and> trace s' = trace s @ only_if (\<not> initialized s) (init_plain_events (opts s))
        @ concat (map (\<lambda>k. imex_stage_events (recipe_of s) (opts s) (nStages s) k t
                              (solver_dt (solver s))) [0 ..< nStages s])"
proof (cases "initialized s")
  case True
  then show ?thesis
    using assms
    by (simp add: coupledSSPIMEX_advance_def ensure_initialized_plain_ext imex_loop_ext)
next
  case False
  let ?s1 = "(ext s (init_plain_events (opts s)))\<lparr>initialized := True\<rparr>"
  have r: "imex_ready ?s1" using assms by simp
  have f: "recipe_of ?s1 = recipe_of s" "opts ?s1 = opts s" "nStages ?s1 = nStages s"
    "solver ?s1 = solver s" "trace ?s1 = trace s @ init_plain_events (opts s)"
    by (simp_all add: opts_def)
  show ?thesis
    using False
    by (simp add: coupledSSPIMEX_advance_def ensure_initialized_plain_ext [OF assms]
        imex_loop_ext [OF r] f)
qed

lemma turbulence_events_append [simp]:
  "turbulence_events (a @ b) = turbulence_events a @ turbulence_events b"
  by (simp add: turbulence_events_def)

lemma turbulence_events_simps [simp]:
  "turbulence_events [] = []"
  "turbulence_events (e # es) =
     (if is_turbulence_event e then e # turbulence_events es else turbulence_events es)"
  by (simp_all add: turbulence_events_def)

lemma only_if_Nil [simp]: "only_if b [] = []"
  by (simp add: only_if_def)

lemma turbulence_events_only_if [simp]:
  "turbulence_events (only_if b es) = only_if b (turbulence_events es)"
  by (cases b) simp_all

lemma turbulence_events_concat:
  "turbulence_events (concat xss) = concat (map turbulence_events xss)"
  by (induction xss) simp_all

lemma no_turbulence_pipeline_events [simp]:
  "turbulence_events (pipeline_events r cfg fl [] []) = []"
  by (cases r)
     (simp_all add: pipeline_events_def elevation_events_def
        moving_mesh_events_def coupling_events_def mesh_velocity_events_def
        bottom_friction_events_def baroclinicity_events_def stabilization_events_def)

lemma no_turbulence_init_plain_events [simp]:
  "turbulence_events (init_plain_events cfg) = []"
  by (simp add: init_plain_events_def)

lemma turbulence_imex_stage_events:
  "useTurbulence cfg \<Longrightarrow>
   turbulence_events (imex_stage_events r cfg n k t d) =
     [StepperSolveStage TimeStepper_psi3d k t d, StepperSolveStage TimeStepper_tke3d k t d,
      GlsPostprocess, GlsPreprocess]"
  by (simp add: imex_stage_events_def imex_turbulence_stage_events_def)

lemma turbulence_update_events_order:
  "turbulence_events (turbulence_update_events cfg t d) =
     [GlsPreprocess, StepperAdvance TimeStepper_psi3d t d, StepperAdvance TimeStepper_tke3d t d,
      GlsPostprocess]"
  by (simp add: turbulence_update_events_def)

lemma calls_imex_stage_events:
  "pipeline_calls (imex_stage_events r cfg n k t d) = [imex_flags n k]"
  by (simp add: imex_stage_events_def imex_turbulence_stage_events_def only_if_def)

lemma imex_constructed:
  assumes "coupledSSPIMEX_init sv = Inr obj"
  shows "\<not> solveVertDiffusion (solver_options sv)"
    and "solver (obj\<lparr>trace := tr, initialized := b\<rparr>) = sv"
    and "opts (obj\<lparr>trace := tr, initialized := b\<rparr>) = solver_options sv"
    and "nStages (obj\<lparr>trace := tr, initialized := b\<rparr>) = imex_nStages sv"
    and "trace (obj\<lparr>trace := tr, initialized := b\<rparr>) = tr"
    and "\<not> useTurbulenceAdvection (solver_options sv) \<Longrightarrow>
         imex_ready (obj\<lparr>trace := tr, initialized := b\<rparr>)"
  using assms
  by (auto simp: coupledSSPIMEX_init_def Let_def imex_ready_def opts_def split: if_splits)

lemma updateTurbulence_returns:
  assumes "useTurbulence (opts s)" "updateTurbulence g s = Inr s'"
  shows "\<exists>t0. g = Some t0
     \<and> s' = ext s (turbulence_update_events (opts s) t0 (solver_dt (solver s)))"
proof (cases g)
  case None
  then show ?thesis using assms by (simp add: updateTurbulence_unbound)
next
  case (Some t0)
  have psi: "TimeStepper_psi3d \<in> set (steppers s)"
    using assms unfolding Some
    by (auto simp: updateTurbulence_def emit_ext advance_at_module_t_eq split: if_splits)
  have tke: "TimeStepper_tke3d \<in> set (steppers s)"
    using assms psi unfolding Some
    by (auto simp: updateTurbulence_def emit_ext advance_at_module_t_eq split: if_splits)
  show ?thesis
    using assms(2) unfolding Some
    by (simp add: updateTurbulence_bound [OF assms(1) psi tke])
qed



lemma upt_3: "[0 ..< 3] = [0, 1, 2]"
  by (simp add: upt_rec)


text \<open>
  Claim C6: the constructor of the SSP-IMEX recipe raises when vertical diffusion is
  configured. Every call of its \<^verbatim>\<open>advance\<close>, on any object and in any state, calls the
  pipeline once per completed stage, stage \<open>k\<close> with \<open>doVertDiffusion\<close> (and
  \<open>doTurbulence\<close>) false and with \<open>do2DCoupling\<close>, \<open>doALEUpdate\<close> and \<open>doStabParams\<close> true
  exactly when \<open>k\<close> is the last stage; when the call returns, all stages have been run.
  On an object built by the constructor, without turbulence advection configured, the
  call returns.
\<close>

theorem imex_vertical_diffusion_and_flags:
  "(solveVertDiffusion (solver_options sv) \<longrightarrow>
      coupledSSPIMEX_init sv = Inl (Exception ''vert mom eq should not exist for this time integrator''))
   \<and> (\<exists>m\<le>nStages s.
        pipeline_calls (trace (final (coupledSSPIMEX_advance g t s)))
          = pipeline_calls (trace s)
            @ map (\<lambda>k. \<lparr>do2DCoupling = (Suc k = nStages s), doVertDiffusion = False,
                        doALEUpdate = (Suc k = nStages s), doStabParams = (Suc k = nStages s),
                        doTurbulence = False\<rparr>) [0 ..< m]
        \<and> (raised (coupledSSPIMEX_advance g t s) = None \<longrightarrow> m = nStages s))
   \<and> (coupledSSPIMEX_init sv = Inr obj \<and> \<not> useTurbulenceAdvection (solver_options sv) \<longrightarrow>
        raised (coupledSSPIMEX_advance g t (obj\<lparr>trace := tr, initialized := b\<rparr>)) = None
        \<and> nStages (obj\<lparr>trace := tr, initialized := b\<rparr>) = imex_nStages sv)"
proof (intro conjI impI)
  assume "solveVertDiffusion (solver_options sv)"
  then show "coupledSSPIMEX_init sv
      = Inl (Exception ''vert mom eq should not exist for this time integrator'')"
    by (simp add: coupledSSPIMEX_init_def Let_def)
next
  have fl: "imex_flags (nStages s) = (\<lambda>k. \<lparr>do2DCoupling = (Suc k = nStages s), doVertDiffusion = False,
                        doALEUpdate = (Suc k = nStages s), doStabParams = (Suc k = nStages s),
                        doTurbulence = False\<rparr>)"
    by (rule HOL.ext) (simp add: imex_flags_def)
  show "\<exists>m\<le>nStages s.
        pipeline_calls (trace (final (coupledSSPIMEX_advance g t s)))
          = pipeline_calls (trace s)
            @ map (\<lambda>k. \<lparr>do2DCoupling = (Suc k = nStages s), doVertDiffusion = False,
                        doALEUpdate = (Suc k = nStages s), doStabParams = (Suc k = nStages s),
                        doTurbulence = False\<rparr>) [0 ..< m]
        \<and> (raised (coupledSSPIMEX_advance g t s) = None \<longrightarrow> m = nStages s)"
    using imex_advance_calls [where s = s and g = g and t = t] unfolding fl .
next
  assume a: "coupledSSPIMEX_init sv = Inr obj \<and> \<not> useTurbulenceAdvection (solver_options sv)"
  let ?s = "obj\<lparr>trace := tr, initialized := b\<rparr>"
  have c: "coupledSSPIMEX_init sv = Inr obj" and na: "\<not> useTurbulenceAdvection (solver_options sv)"
    using a by simp_all
  have rdy: "imex_ready ?s" using imex_constructed(6) [OF c na] .
  from imex_advance_ext [OF rdy, of g t]
  obtain s1 where s1: "coupledSSPIMEX_advance g t ?s = Inr s1"
    by (elim exE conjE)
  show "raised (coupledSSPIMEX_advance g t ?s) = None"
    unfolding s1 by simp
  show "nStages ?s = imex_nStages sv"
    using imex_constructed(4) [OF c, where tr = tr and b = b] .
qed

text \<open>The three parts at the sample configurations.\<close>

theorem imex_vertical_diffusion_and_flags_witness:
  "solveVertDiffusion (solver_options demo_vdiff_solver)
   \<and> coupledSSPIMEX_init demo_vdiff_solver
       = Inl (Exception ''vert mom eq should not exist for this time integrator'')
   \<and> (case coupledSSPIMEX_init demo_solver of
        Inl e \<Rightarrow> False
      | Inr obj \<Rightarrow>
          \<not> useTurbulenceAdvection (solver_options demo_solver)
          \<and> raised (coupledSSPIMEX_advance None 0 obj) = None
          \<and> pipeline_calls (trace (final (coupledSSPIMEX_advance None 0 obj)))
            = [\<lparr>do2DCoupling = False, doVertDiffusion = False, doALEUpdate = False,
                doStabParams = False, doTurbulence = False\<rparr>,
               \<lparr>do2DCoupling = False, doVertDiffusion = False, doALEUpdate = False,
                doStabParams = False, doTurbulence = False\<rparr>,
               \<lparr>do2DCoupling = True, doVertDiffusion = False, doALEUpdate = True,
                doStabParams = True, doTurbulence = False\<rparr>])"
proof -
  let ?obj = "projr (coupledSSPIMEX_init demo_solver)"
  have vd: "solveVertDiffusion (solver_options demo_vdiff_solver)"
    by (simp add: demo_vdiff_solver_def demo_solver_def demo_options_def)
  have exc: "coupledSSPIMEX_init demo_vdiff_solver
       = Inl (Exception ''vert mom eq should not exist for this time integrator'')"
    using imex_vertical_diffusion_and_flags [where sv = demo_vdiff_solver, THEN conjunct1] vd
    by (rule mp)
  have nl: "\<not> isl (coupledSSPIMEX_init demo_solver)" by code_simp
  then have c: "coupledSSPIMEX_init demo_solver = Inr ?obj" by simp
  have na: "\<not> useTurbulenceAdvection (solver_options demo_solver)"
    by (simp add: demo_solver_def demo_options_def)
  have fresh: "?obj\<lparr>trace := [], initialized := False\<rparr> = ?obj" by code_simp
  have tr0: "trace ?obj = []" by code_simp
  have n3: "imex_nStages demo_solver = 3" by (simp add: demo_solver_def)
  note inst = imex_vertical_diffusion_and_flags
    [where sv = demo_solver and s = ?obj and g = None and t = 0 and obj = ?obj
       and tr = "[]" and b = False]
  have "raised (coupledSSPIMEX_advance None 0 (?obj\<lparr>trace := [], initialized := False\<rparr>)) = None
        \<and> nStages (?obj\<lparr>trace := [], initialized := False\<rparr>) = imex_nStages demo_solver"
    using inst [THEN conjunct2, THEN conjunct2] c na by (elim impE) (intro conjI)
  then have ret: "raised (coupledSSPIMEX_advance None 0 ?obj) = None"
    and n: "nStages ?obj = 3"
    unfolding fresh n3 by simp_all
  from inst [THEN conjunct2, THEN conjunct1] obtain m where
    calls: "pipeline_calls (trace (final (coupledSSPIMEX_advance None 0 ?obj)))
          = pipeline_calls (trace ?obj)
            @ map (\<lambda>k. \<lparr>do2DCoupling = (Suc k = nStages ?obj), doVertDiffusion = False,
                        doALEUpdate = (Suc k = nStages ?obj), doStabParams = (Suc k = nStages ?obj),
                        doTurbulence = False\<rparr>) [0 ..< m]"
    and fin: "raised (coupledSSPIMEX_advance None 0 ?obj) = None \<longrightarrow> m = nStages ?obj"
    by (elim exE conjE)
  have m: "m = 3" using fin ret n by simp
  have "pipeline_calls (trace (final (coupledSSPIMEX_advance None 0 ?obj)))
      = [\<lparr>do2DCoupling = False, doVertDiffusion = False, doALEUpdate = False,
                doStabParams = False, doTurbulence = False\<rparr>,
               \<lparr>do2DCoupling = False, doVertDiffusion = False, doALEUpdate = False,
                doStabParams = False, doTurbulence = False\<rparr>,
               \<lparr>do2DCoupling = True, doVertDiffusion = False, doALEUpdate = True,
                doStabParams = True, doTurbulence = False\<rparr>]"
    unfolding calls m n tr0 by (simp add: upt_3)
  then show ?thesis
    using vd exc nl na ret by (simp add: sum.case_eq_if)
qed

subsection \<open>Advancing before initializing\<close>

text \<open>
  Claim C7 does not hold of the code. \<^verbatim>\<open>coupledSSPRKSingleMode.advance\<close> on a fresh
  object runs its solves and returns: no stepper is initialized and \<^verbatim>\<open>_initialized\<close>
  stays false. \<^verbatim>\<open>coupledSSPRKSync.advance\<close> on a fresh object initializes first.
\<close>

theorem singlemode_advance_without_initialize:
  "raised (advance None 0 (coupledSSPRKSingleMode_init demo_solver)) = None
   \<and> \<not> initialized (final (advance None 0 (coupledSSPRKSingleMode_init demo_solver)))
   \<and> filter is_initialize_event
        (trace (final (advance None 0 (coupledSSPRKSingleMode_init demo_solver)))) = []
   \<and> take 2 (trace (final (advance None 0 (coupledSSPRKSingleMode_init demo_solver))))
       = [StepperSolveStage TimeStepper_mom3d 0 0 3, StepperSolveStage TimeStepper2d 0 0 3]
   \<and> initialized (final (advance None 0 (coupledSSPRKSync_init demo_solver)))
   \<and> filter is_initialize_event
        (trace (final (advance None 0 (coupledSSPRKSync_init demo_solver))))
       = [StepperInitialize TimeStepper2d, StepperInitialize TimeStepper_mom3d]"
  by code_simp

end
